theory Spec2Isabelle
  imports Complex_Main
begin

section \<open>JavaScript values as the handlers see them\<close>

text \<open>
  The handlers of \<^verbatim>\<open>transaction-service.js\<close> and of the account service work on
  whatever \<^verbatim>\<open>JSON.parse\<close> and the datastore client hand them, so the model keeps
  JavaScript's dynamic values: a request field may be missing (\<open>JUndefined\<close>), a number, a
  string, an array or an object. Numbers are the finite ones, as rationals (every finite
  double is one; the handlers only compare them with \<open>0\<close> and \<open>3\<close>). Strings are lists of
  8-bit characters, read as ASCII text. An object is the list of its own properties in
  insertion order; a later binding of a key overrides an earlier one, as in
  \<^verbatim>\<open>JSON.parse\<close>.
\<close>

datatype jsval =
    JUndefined
  | JNull
  | JBool bool
  | JNum rat
  | JStr string
  | JArr "jsval list"
  | JObj "(string \<times> jsval) list"

text \<open>\<^verbatim>\<open>!v\<close> is \<open>\<not> truthy v\<close>.\<close>

fun truthy :: "jsval \<Rightarrow> bool" where
  "truthy JUndefined = False"
| "truthy JNull = False"
| "truthy (JBool b) = b"
| "truthy (JNum r) = (r \<noteq> 0)"
| "truthy (JStr s) = (s \<noteq> [])"
| "truthy (JArr xs) = True"
| "truthy (JObj kvs) = True"

text \<open>
  \<^verbatim>\<open>a === b\<close>. Primitives are compared by type and value. Arrays and objects are
  compared by identity; at every use below the two operands come from different places
  (two fields of a parsed body, two datastore replies, a field and a literal), so they are
  never the same object and the comparison is false.
\<close>

fun strict_eq :: "jsval \<Rightarrow> jsval \<Rightarrow> bool" where
  "strict_eq JUndefined JUndefined = True"
| "strict_eq JNull JNull = True"
| "strict_eq (JBool a) (JBool b) = (a = b)"
| "strict_eq (JNum a) (JNum b) = (a = b)"
| "strict_eq (JStr a) (JStr b) = (a = b)"
| "strict_eq _ _ = False"

text \<open>
  \<^verbatim>\<open>v.k\<close> and the destructuring \<^verbatim>\<open>const { k } = v\<close>, for the property names the
  handlers read from parsed JSON (none of them is a property of a built-in prototype):
  an object yields its own property, anything else \<^verbatim>\<open>undefined\<close>. Reading a property of
  \<^verbatim>\<open>null\<close> or \<^verbatim>\<open>undefined\<close> throws; the callers below handle that case first.
\<close>

definition get_prop :: "jsval \<Rightarrow> string \<Rightarrow> jsval" where
  "get_prop v k =
     (case v of
        JObj kvs \<Rightarrow> (case map_of (rev kvs) k of Some x \<Rightarrow> x | None \<Rightarrow> JUndefined)
      | _ \<Rightarrow> JUndefined)"

text \<open>\<^verbatim>\<open>v.length\<close> for a truthy \<open>v\<close>: strings and arrays have one, an object may carry
  a property of that name, numbers and booleans have none.\<close>

definition js_length :: "jsval \<Rightarrow> jsval" where
  "js_length v =
     (case v of
        JStr s \<Rightarrow> JNum (of_nat (length s))
      | JArr xs \<Rightarrow> JNum (of_nat (length xs))
      | JObj kvs \<Rightarrow> get_prop v ''length''
      | _ \<Rightarrow> JUndefined)"

text \<open>\<^verbatim>\<open>n.toString()\<close> for a non-negative integer: its decimal digits.\<close>

fun string_of_nat :: "nat \<Rightarrow> string" where
  "string_of_nat n =
     (if n < 10 then [''0123456789'' ! n]
      else string_of_nat (n div 10) @ [''0123456789'' ! (n mod 10)])"

declare string_of_nat.simps [simp del]

text \<open>The own enumerable properties of a value, as an object spread copies them: those of
  an object, the elements of an array and the characters of a string under their indices,
  none for the other values.\<close>

definition own_props :: "jsval \<Rightarrow> (string \<times> jsval) list" where
  "own_props v =
     (case v of
        JObj kvs \<Rightarrow> kvs
      | JArr xs \<Rightarrow> zip (map string_of_nat [0..<length xs]) xs
      | JStr s \<Rightarrow> zip (map string_of_nat [0..<length s]) (map (\<lambda>c. JStr [c]) s)
      | _ \<Rightarrow> [])"

text \<open>\<^verbatim>\<open>{...obj, k: v}\<close>: the properties of \<open>obj\<close>, then \<open>k\<close> (overriding an
  earlier \<open>k\<close>).\<close>

definition spread_with :: "jsval \<Rightarrow> string \<Rightarrow> jsval \<Rightarrow> jsval" where
  "spread_with obj k v = JObj (own_props obj @ [(k, v)])"

subsection \<open>Strings\<close>

definition upper_char :: "char \<Rightarrow> char" where
  "upper_char c =
     (case map_of (zip ''abcdefghijklmnopqrstuvwxyz'' ''ABCDEFGHIJKLMNOPQRSTUVWXYZ'') c of
        Some u \<Rightarrow> u
      | None \<Rightarrow> c)"

text \<open>\<^verbatim>\<open>s.toUpperCase()\<close> on ASCII text.\<close>

definition toUpperCase :: "string \<Rightarrow> string" where
  "toUpperCase s = map upper_char s"

fun starts_with :: "string \<Rightarrow> string \<Rightarrow> bool" where
  "starts_with [] s = True"
| "starts_with (p # ps) [] = False"
| "starts_with (p # ps) (c # cs) = (p = c \<and> starts_with ps cs)"

text \<open>The text before and after the first occurrence of a (non-empty) pattern.\<close>

fun split_at_first :: "string \<Rightarrow> string \<Rightarrow> (string \<times> string) option" where
  "split_at_first pat [] = (if pat = [] then Some ([], []) else None)"
| "split_at_first pat (c # cs) =
     (if starts_with pat (c # cs) then Some ([], drop (length pat) (c # cs))
      else (case split_at_first pat cs of
              None \<Rightarrow> None
            | Some (b, a) \<Rightarrow> Some (c # b, a)))"

text \<open>\<^verbatim>\<open>s.includes(pat)\<close>.\<close>

definition js_includes :: "string \<Rightarrow> string \<Rightarrow> bool" where
  "js_includes s pat = (split_at_first pat s \<noteq> None)"

text \<open>\<^verbatim>\<open>s.split(pat)[1]\<close>: the piece between the first and the second occurrence of
  \<open>pat\<close> (to the end when there is no second one); \<^verbatim>\<open>undefined\<close>, here \<open>None\<close>, when
  \<open>pat\<close> does not occur.\<close>

definition split_second :: "string \<Rightarrow> string \<Rightarrow> string option" where
  "split_second s pat =
     (case split_at_first pat s of
        None \<Rightarrow> None
      | Some (b, rest) \<Rightarrow>
          (case split_at_first pat rest of
             None \<Rightarrow> Some rest
           | Some (piece, a) \<Rightarrow> Some piece))"

definition is_space :: "char \<Rightarrow> bool" where
  "is_space c = ((of_char c :: nat) \<in> {9, 10, 11, 12, 13, 32, 160})"

text \<open>\<^verbatim>\<open>s.trim()\<close>.\<close>

definition trim :: "string \<Rightarrow> string" where
  "trim s = rev (dropWhile is_space (rev (dropWhile is_space s)))"

section \<open>The datastore client\<close>

text \<open>
  Every call on the Supabase client resolves to \<^verbatim>\<open>{ data, error }\<close>. The database
  behind it, with the routines \<^verbatim>\<open>post_ledger_transaction\<close> and
  \<^verbatim>\<open>calculate_balance\<close>, is not part of the service code, so the handlers are modelled
  over an arbitrary datastore: a record of operations on a store \<open>'s\<close>, each returning its
  reply and the store after the call. The handlers' theorems hold for every datastore.
\<close>

record pg_error =
  err_code :: "string option"
  err_message :: "string option"

record query_result =
  q_data :: jsval
  q_error :: "pg_error option"

record post_args =
  p_transaction_id :: string
  p_debit_account_id :: jsval
  p_credit_account_id :: jsval
  p_amount :: rat
  p_currency :: string
  p_description :: jsval

record insert_args =
  i_customer_id :: jsval
  i_account_number :: string
  i_account_type :: jsval
  i_currency :: string
  i_nickname :: jsval

text \<open>The reply of an RPC whose client call may also throw (the handlers of the account
  service wrap \<^verbatim>\<open>calculate_balance\<close> in a \<^verbatim>\<open>try\<close>).\<close>

datatype rpc_reply = RpcThrew string | RpcReplied query_result

record 's datastore =
  select_customer_id :: "jsval \<Rightarrow> 's \<Rightarrow> query_result \<times> 's"
  select_account_owner :: "jsval \<Rightarrow> 's \<Rightarrow> query_result \<times> 's"
  rpc_post_ledger_transaction :: "post_args \<Rightarrow> 's \<Rightarrow> pg_error option \<times> 's"
  select_account_number :: "string \<Rightarrow> 's \<Rightarrow> query_result \<times> 's"
  insert_account :: "insert_args \<Rightarrow> 's \<Rightarrow> query_result \<times> 's"
  select_accounts_of_customer :: "jsval \<Rightarrow> 's \<Rightarrow> query_result \<times> 's"
  select_account :: "string \<Rightarrow> 's \<Rightarrow> query_result \<times> 's"
  rpc_calculate_balance :: "jsval \<Rightarrow> 's \<Rightarrow> rpc_reply \<times> 's"

text \<open>The datastore calls a handler has made, in order, each with its reply.\<close>

datatype db_call =
    SelectCustomerId jsval query_result
  | SelectAccountOwner jsval query_result
  | RpcPostLedgerTransaction post_args "pg_error option"
  | SelectAccountNumber string query_result
  | InsertAccount insert_args query_result
  | SelectAccountsOfCustomer jsval query_result
  | SelectAccount string query_result
  | RpcCalculateBalance jsval rpc_reply

record 's world =
  store :: 's
  calls :: "db_call list"

definition db_query ::
  "('a \<Rightarrow> 's \<Rightarrow> 'r \<times> 's) \<Rightarrow> ('a \<Rightarrow> 'r \<Rightarrow> db_call) \<Rightarrow> 'a \<Rightarrow> 's world \<Rightarrow> 'r \<times> 's world" where
  "db_query op tag a w =
     (case op a (store w) of
        (r, s') \<Rightarrow> (r, \<lparr>store = s', calls = calls w @ [tag a r]\<rparr>))"

section \<open>Responses\<close>

text \<open>
  A response is \<^verbatim>\<open>{ statusCode, body: JSON.stringify(value) }\<close>; the model keeps the
  value that is stringified. One message interpolates a request field into a template
  literal; it is kept as the template and the interpolated value.
\<close>

datatype js_error = TypeError string | Error string

fun error_message :: "js_error \<Rightarrow> string" where
  "error_message (TypeError m) = m"
| "error_message (Error m) = m"

datatype body = Json jsval | MessageTemplate string jsval

record response =
  statusCode :: nat
  body :: body

definition message_response :: "nat \<Rightarrow> string \<Rightarrow> response" where
  "message_response code m = \<lparr>statusCode = code, body = Json (JObj [(''message'', JStr m)])\<rparr>"

definition opt_str :: "string option \<Rightarrow> jsval" where
  "opt_str m = (case m of None \<Rightarrow> JUndefined | Some s \<Rightarrow> JStr s)"

record request =
  parsed_body :: "jsval option"
  path :: string
  query_customerId :: jsval

section \<open>transaction-service: the internal transfer\<close>

text \<open>A reply with a row: the negation of the handlers' \<^verbatim>\<open>error || !data\<close>.\<close>

definition row_found :: "query_result \<Rightarrow> bool" where
  "row_found r = (q_error r = None \<and> truthy (q_data r))"

text \<open>What \<^verbatim>\<open>getCustomerIdFromAuth0Sub\<close> returns for a reply of the customer
  table: \<^verbatim>\<open>data.id\<close>, or \<^verbatim>\<open>null\<close> when the lookup failed or found nothing.\<close>

definition customer_of :: "query_result \<Rightarrow> jsval" where
  "customer_of r = (if q_error r \<noteq> None \<or> \<not> truthy (q_data r) then JNull
                    else get_prop (q_data r) ''id'')"

definition getCustomerIdFromAuth0Sub :: "'s datastore \<Rightarrow> jsval \<Rightarrow> 's world \<Rightarrow> jsval \<times> 's world" where
  "getCustomerIdFromAuth0Sub ds auth0Sub w =
     (case db_query (select_customer_id ds) SelectCustomerId auth0Sub w of
        (r, w') \<Rightarrow> (customer_of r, w'))"

text \<open>The basic input validation of \<^verbatim>\<open>handleInternalTransfer\<close>: the response of the
  first check that fails, in the source's order, or \<open>None\<close> when all pass.\<close>

definition transfer_validation :: "jsval \<Rightarrow> response option" where
  "transfer_validation requestBody =
     (let fromAccountId = get_prop requestBody ''fromAccountId'';
          toAccountId = get_prop requestBody ''toAccountId'';
          amount = get_prop requestBody ''amount'';
          currency = get_prop requestBody ''currency''
      in
        if \<not> truthy fromAccountId \<or> \<not> truthy toAccountId \<or> \<not> truthy amount \<or> \<not> truthy currency
        then Some (message_response 400
               ''Missing required fields: fromAccountId, toAccountId, amount, currency'')
        else if (case amount of JNum r \<Rightarrow> r \<le> 0 | _ \<Rightarrow> True)
        then Some (message_response 400 ''Invalid amount: must be a positive number'')
        else if strict_eq fromAccountId toAccountId
        then Some (message_response 400 ''From and To accounts cannot be the same'')
        else if \<not> strict_eq (js_length currency) (JNum 3)
        then Some (message_response 400 ''Invalid currency code (must be 3 letters)'')
        else None)"

text \<open>The message shown for a failed posting: the text after the marker when the
  database error carries one, a fixed text otherwise
  (\<^verbatim>\<open>rpcError.message?.includes('EXCEPTION:') ? rpcError.message.split('EXCEPTION:')[1].trim() : ...\<close>).\<close>

definition dbErrorMessage :: "pg_error \<Rightarrow> string" where
  "dbErrorMessage rpcError =
     (case err_message rpcError of
        None \<Rightarrow> ''Transaction failed due to database error.''
      | Some m \<Rightarrow>
          (if js_includes m ''EXCEPTION:''
           then (case split_second m ''EXCEPTION:'' of Some piece \<Rightarrow> trim piece | None \<Rightarrow> [])
           else ''Transaction failed due to database error.''))"

text \<open>The arguments of the \<^verbatim>\<open>post_ledger_transaction\<close> call, for a request body whose
  currency is the string \<open>c\<close> and whose amount passed validation (so it is a number).
  \<open>uuid\<close> is what \<^verbatim>\<open>crypto.randomUUID()\<close> returned.\<close>

definition transfer_args :: "string \<Rightarrow> jsval \<Rightarrow> string \<Rightarrow> post_args" where
  "transfer_args uuid requestBody c =
     \<lparr>p_transaction_id = uuid,
      p_debit_account_id = get_prop requestBody ''fromAccountId'',
      p_credit_account_id = get_prop requestBody ''toAccountId'',
      p_amount = (case get_prop requestBody ''amount'' of JNum r \<Rightarrow> r | _ \<Rightarrow> 0),
      p_currency = toUpperCase c,
      p_description = get_prop requestBody ''description''\<rparr>"

text \<open>The response to the reply of the posting call: 422 with the extracted message
  when it reports an error, 200 otherwise.\<close>

definition posting_response :: "string \<Rightarrow> pg_error option \<Rightarrow> response" where
  "posting_response uuid reply =
     (case reply of
        Some rpcError \<Rightarrow>
          \<lparr>statusCode = 422,
           body = Json (JObj [(''message'', JStr ''Transaction failed.''),
                              (''details'', JStr (dbErrorMessage rpcError)),
                              (''transactionId'', JStr uuid)])\<rparr>
      | None \<Rightarrow>
          \<lparr>statusCode = 200,
           body = Json (JObj [(''transactionId'', JStr uuid),
                              (''status'', JStr ''COMPLETED'')])\<rparr>)"

text \<open>The \<^verbatim>\<open>try\<close> block: authorization, then the posting call, then its reply.
  \<^verbatim>\<open>currency.toUpperCase()\<close> throws when the currency is not a string.\<close>

definition transfer_try ::
  "'s datastore \<Rightarrow> string \<Rightarrow> jsval \<Rightarrow> jsval \<Rightarrow> 's world \<Rightarrow> (js_error + response) \<times> 's world" where
  "transfer_try ds uuid requestBody verifiedToken w =
     (let fromAccountId = get_prop requestBody ''fromAccountId'';
          currency = get_prop requestBody ''currency''
      in
      case getCustomerIdFromAuth0Sub ds (get_prop verifiedToken ''sub'') w of
        (requestingCustomerId, w1) \<Rightarrow>
          if \<not> truthy requestingCustomerId
          then (Inr (message_response 403 ''Could not identify requesting customer''), w1)
          else
            (case db_query (select_account_owner ds) SelectAccountOwner fromAccountId w1 of
               (fromAccount, w2) \<Rightarrow>
                 if \<not> row_found fromAccount
                 then (Inr \<lparr>statusCode = 404,
                             body = MessageTemplate ''Debit account not found: '' fromAccountId\<rparr>, w2)
                 else if \<not> strict_eq (get_prop (q_data fromAccount) ''customer_id'') requestingCustomerId
                 then (Inr (message_response 403 ''Forbidden: You do not own the source account.''), w2)
                 else
                   (case currency of
                      JStr c \<Rightarrow>
                        (case db_query (rpc_post_ledger_transaction ds) RpcPostLedgerTransaction
                                (transfer_args uuid requestBody c) w2 of
                           (reply, w3) \<Rightarrow> (Inr (posting_response uuid reply), w3))
                    | _ \<Rightarrow> (Inl (TypeError ''currency.toUpperCase is not a function''), w2))))"

text \<open>
  \<^verbatim>\<open>handleInternalTransfer(req, verifiedToken)\<close>. A body that does not parse is
  answered with 400; destructuring a body that parsed to \<^verbatim>\<open>null\<close> throws out of the
  handler (\<open>Inl\<close>); an exception inside the \<^verbatim>\<open>try\<close> block is answered with 500.
\<close>

definition handleInternalTransfer ::
  "'s datastore \<Rightarrow> string \<Rightarrow> request \<Rightarrow> jsval \<Rightarrow> 's world \<Rightarrow> (js_error + response) \<times> 's world" where
  "handleInternalTransfer ds uuid req verifiedToken w =
     (case parsed_body req of
        None \<Rightarrow> (Inr (message_response 400 ''Invalid JSON body''), w)
      | Some requestBody \<Rightarrow>
          if requestBody = JNull \<or> requestBody = JUndefined
          then (Inl (TypeError ''Cannot destructure property of null''), w)
          else
            (case transfer_validation requestBody of
               Some r \<Rightarrow> (Inr r, w)
             | None \<Rightarrow>
                 (case transfer_try ds uuid requestBody verifiedToken w of
                    (Inl err, w') \<Rightarrow>
                      (Inr (message_response 500 (''Internal server error: '' @ error_message err)), w')
                  | (Inr r, w') \<Rightarrow> (Inr r, w'))))"

section \<open>account-service\<close>

subsection \<open>Numbers and text\<close>

text \<open>\<^verbatim>\<open>crypto.randomInt(min, max)\<close>: an integer \<open>n\<close> with \<open>min \<le> n < max\<close>, chosen by
  the entropy \<open>r\<close> of the call.\<close>

definition randomInt :: "nat \<Rightarrow> nat \<Rightarrow> nat \<Rightarrow> nat" where
  "randomInt lo hi r = lo + r mod (hi - lo)"

definition is_digit :: "char \<Rightarrow> bool" where
  "is_digit c = (c \<in> set ''0123456789'')"

definition digits_value :: "string \<Rightarrow> nat" where
  "digits_value ds = foldl (\<lambda>a c. 10 * a + ((of_char c :: nat) - 48)) 0 ds"

text \<open>\<^verbatim>\<open>parseInt(s, 10)\<close> on a string: leading white space, an optional sign, then the
  longest run of digits; \<^verbatim>\<open>NaN\<close>, here \<open>None\<close>, when there is no digit.\<close>

definition parseInt10 :: "string \<Rightarrow> int option" where
  "parseInt10 s =
     (let s1 = dropWhile is_space s;
          neg = (case s1 of c # r \<Rightarrow> c = CHR ''-'' | [] \<Rightarrow> False);
          s2 = (case s1 of c # r \<Rightarrow> if c = CHR ''-'' \<or> c = CHR ''+'' then r else s1 | [] \<Rightarrow> s1);
          ds = takeWhile is_digit s2
      in if ds = [] then None
         else Some (if neg then - int (digits_value ds) else int (digits_value ds)))"

text \<open>
  The text \<^verbatim>\<open>parseInt\<close> reads from a value that is not a string: the digits of an
  integer below \<open>10\<^sup>2\<^sup>1\<close>; for every other value (a fraction, a boolean, an array, an
  object) JavaScript's \<^verbatim>\<open>ToString\<close> is taken as the parameter \<open>other\<close>.
\<close>

definition js_text :: "(jsval \<Rightarrow> string) \<Rightarrow> jsval \<Rightarrow> string" where
  "js_text other v =
     (case v of
        JStr s \<Rightarrow> s
      | JNum r \<Rightarrow>
          (if of_int \<lfloor>r\<rfloor> = r \<and> \<bar>r\<bar> < 10 ^ 21
           then (if r < 0 then CHR ''-'' # string_of_nat (nat (- \<lfloor>r\<rfloor>))
                 else string_of_nat (nat \<lfloor>r\<rfloor>))
           else other v)
      | _ \<Rightarrow> other v)"

text \<open>\<^verbatim>\<open>requestingCustomerId !== parseInt(customerId, 10)\<close>, negated.\<close>

definition is_customer :: "(jsval \<Rightarrow> string) \<Rightarrow> jsval \<Rightarrow> jsval \<Rightarrow> bool" where
  "is_customer other requestingCustomerId customerId =
     (case parseInt10 (js_text other customerId) of
        None \<Rightarrow> False
      | Some n \<Rightarrow> strict_eq requestingCustomerId (JNum (of_int n)))"

subsection \<open>The account-number allocator\<close>

text \<open>
  \<^verbatim>\<open>generateUniqueAccountNumber(maxRetries = 5)\<close>: the loop from iteration \<open>i\<close> on.
  \<open>rnd i\<close> is the entropy of the draw of iteration \<open>i\<close>. A database error of the
  uniqueness check and the exhaustion of the attempts are thrown (\<open>Inl\<close>).
\<close>

function generateUniqueAccountNumber_from ::
  "'s datastore \<Rightarrow> (nat \<Rightarrow> nat) \<Rightarrow> nat \<Rightarrow> nat \<Rightarrow> 's world \<Rightarrow> (js_error + string) \<times> 's world" where
  "generateUniqueAccountNumber_from ds rnd maxRetries i w =
     (if i < maxRetries
      then
        (case db_query (select_account_number ds) SelectAccountNumber
                (string_of_nat (randomInt 1000000000 9999999999 (rnd i))) w of
           (r, w') \<Rightarrow>
             if q_error r \<noteq> None
             then (Inl (Error ''Database error during account number generation''), w')
             else if \<not> truthy (q_data r)
             then (Inr (string_of_nat (randomInt 1000000000 9999999999 (rnd i))), w')
             else generateUniqueAccountNumber_from ds rnd maxRetries (i + 1) w')
      else (Inl (Error ''Failed to generate a unique account number after multiple attempts.''), w))"
  by pat_completeness auto
termination
  by (relation "measure (\<lambda>(ds, rnd, maxRetries, i, w). maxRetries - i)") auto

declare generateUniqueAccountNumber_from.simps [simp del]

definition generateUniqueAccountNumber ::
  "'s datastore \<Rightarrow> (nat \<Rightarrow> nat) \<Rightarrow> nat \<Rightarrow> 's world \<Rightarrow> (js_error + string) \<times> 's world" where
  "generateUniqueAccountNumber ds rnd maxRetries w =
     generateUniqueAccountNumber_from ds rnd maxRetries 0 w"

subsection \<open>Creating an account\<close>

definition create_validation :: "jsval \<Rightarrow> response option" where
  "create_validation requestBody =
     (let customerId = get_prop requestBody ''customerId'';
          accountType = get_prop requestBody ''accountType'';
          currency = get_prop requestBody ''currency''
      in
        if \<not> truthy customerId \<or> \<not> truthy accountType \<or> \<not> truthy currency
        then Some (message_response 400 ''Missing customerId, accountType, or currency'')
        else if \<not> (strict_eq (JStr ''CHECKING'') accountType \<or> strict_eq (JStr ''SAVINGS'') accountType)
        then Some (message_response 400 ''Invalid accountType'')
        else if \<not> strict_eq (js_length currency) (JNum 3)
        then Some (message_response 400 ''Invalid currency code'')
        else None)"

text \<open>The row passed to \<^verbatim>\<open>insert\<close>, for a request body whose currency is the string
  \<open>c\<close>.\<close>

definition create_args :: "jsval \<Rightarrow> string \<Rightarrow> jsval \<Rightarrow> string \<Rightarrow> insert_args" where
  "create_args requestingCustomerId accountNumber requestBody c =
     \<lparr>i_customer_id = requestingCustomerId,
      i_account_number = accountNumber,
      i_account_type = get_prop requestBody ''accountType'',
      i_currency = toUpperCase c,
      i_nickname = get_prop requestBody ''nickname''\<rparr>"

text \<open>The \<^verbatim>\<open>try\<close> block of \<^verbatim>\<open>handleCreateAccount\<close>: allocate a number, insert the
  row, answer 201 with it. The log line after the insert reads \<^verbatim>\<open>data.id\<close>, which
  throws when the reply carries neither an error nor a row.\<close>

definition create_try ::
  "'s datastore \<Rightarrow> (nat \<Rightarrow> nat) \<Rightarrow> jsval \<Rightarrow> jsval \<Rightarrow> 's world \<Rightarrow> (js_error + response) \<times> 's world" where
  "create_try ds rnd requestBody requestingCustomerId w =
     (case generateUniqueAccountNumber ds rnd 5 w of
        (Inl err, w1) \<Rightarrow> (Inl err, w1)
      | (Inr accountNumber, w1) \<Rightarrow>
          (case get_prop requestBody ''currency'' of
             JStr c \<Rightarrow>
               (case db_query (insert_account ds) InsertAccount
                       (create_args requestingCustomerId accountNumber requestBody c) w1 of
                  (r, w2) \<Rightarrow>
                    (case q_error r of
                       Some e \<Rightarrow>
                         (Inr \<lparr>statusCode = 500,
                               body = Json (JObj [(''message'', JStr ''Database error creating account''),
                                                  (''details'', opt_str (err_message e))])\<rparr>, w2)
                     | None \<Rightarrow>
                         if q_data r = JNull \<or> q_data r = JUndefined
                         then (Inl (TypeError ''Cannot read properties of null (reading id)''), w2)
                         else (Inr \<lparr>statusCode = 201, body = Json (q_data r)\<rparr>, w2)))
           | _ \<Rightarrow> (Inl (TypeError ''currency.toUpperCase is not a function''), w1)))"

text \<open>\<^verbatim>\<open>handleCreateAccount(req, verifiedToken)\<close>. \<open>other\<close> is JavaScript's
  \<^verbatim>\<open>ToString\<close> on the values \<open>js_text\<close> leaves to it.\<close>

definition handleCreateAccount ::
  "'s datastore \<Rightarrow> (nat \<Rightarrow> nat) \<Rightarrow> (jsval \<Rightarrow> string) \<Rightarrow> request \<Rightarrow> jsval \<Rightarrow> 's world
     \<Rightarrow> (js_error + response) \<times> 's world" where
  "handleCreateAccount ds rnd other req verifiedToken w =
     (case parsed_body req of
        None \<Rightarrow> (Inr (message_response 400 ''Invalid JSON body''), w)
      | Some requestBody \<Rightarrow>
          if requestBody = JNull \<or> requestBody = JUndefined
          then (Inl (TypeError ''Cannot destructure property of null''), w)
          else
            (case create_validation requestBody of
               Some r \<Rightarrow> (Inr r, w)
             | None \<Rightarrow>
                 (case getCustomerIdFromAuth0Sub ds (get_prop verifiedToken ''sub'') w of
                    (requestingCustomerId, w1) \<Rightarrow>
                      if \<not> truthy requestingCustomerId
                         \<or> \<not> is_customer other requestingCustomerId (get_prop requestBody ''customerId'')
                      then (Inr (message_response 403
                              ''Forbidden: You can only create accounts for yourself.''), w1)
                      else
                        (case create_try ds rnd requestBody requestingCustomerId w1 of
                           (Inl err, w2) \<Rightarrow>
                             (Inr (message_response 500
                                (''Internal server error: '' @ error_message err)), w2)
                         | (Inr r, w2) \<Rightarrow> (Inr r, w2)))))"

subsection \<open>Listing accounts and reading one, with balances\<close>

text \<open>The \<^verbatim>\<open>balance\<close> a handler shows for a reply of \<^verbatim>\<open>calculate_balance\<close>: the
  string \<open>Error\<close> when the call threw or reported an error, the data otherwise.\<close>

definition balance_failed :: "rpc_reply \<Rightarrow> bool" where
  "balance_failed reply =
     (case reply of RpcThrew m \<Rightarrow> True | RpcReplied r \<Rightarrow> q_error r \<noteq> None)"

definition shown_balance :: "rpc_reply \<Rightarrow> jsval" where
  "shown_balance reply =
     (if balance_failed reply then JStr ''Error''
      else (case reply of RpcReplied r \<Rightarrow> q_data r | RpcThrew m \<Rightarrow> JStr ''Error''))"

text \<open>
  The callback of \<^verbatim>\<open>accounts.map\<close>: the account with its balance. Reading \<^verbatim>\<open>acc.id\<close>
  of a \<^verbatim>\<open>null\<close> element throws inside the \<^verbatim>\<open>try\<close> and again in the log line of the
  \<^verbatim>\<open>catch\<close>, which rejects the callback (\<open>Inl\<close>) without a datastore call.
\<close>

definition account_with_balance ::
  "'s datastore \<Rightarrow> jsval \<Rightarrow> 's world \<Rightarrow> (js_error + jsval) \<times> 's world" where
  "account_with_balance ds acc w =
     (if acc = JNull \<or> acc = JUndefined
      then (Inl (TypeError ''Cannot read properties of null (reading id)''), w)
      else
        (case db_query (rpc_calculate_balance ds) RpcCalculateBalance (get_prop acc ''id'') w of
           (reply, w') \<Rightarrow> (Inr (spread_with acc ''balance'' (shown_balance reply)), w')))"

text \<open>\<^verbatim>\<open>Promise.all(accounts.map(...))\<close>: the callbacks start in order, each issues its
  call; the result is the list of the results, or the first rejection.\<close>

fun accounts_with_balance ::
  "'s datastore \<Rightarrow> jsval list \<Rightarrow> 's world \<Rightarrow> (js_error + jsval list) \<times> 's world" where
  "accounts_with_balance ds [] w = (Inr [], w)"
| "accounts_with_balance ds (acc # accs) w =
     (case account_with_balance ds acc w of
        (r, w1) \<Rightarrow>
          (case accounts_with_balance ds accs w1 of
             (rs, w2) \<Rightarrow>
               (case r of
                  Inl err \<Rightarrow> (Inl err, w2)
                | Inr a \<Rightarrow> (case rs of Inl err \<Rightarrow> (Inl err, w2) | Inr as \<Rightarrow> (Inr (a # as), w2)))))"

definition list_try ::
  "'s datastore \<Rightarrow> jsval \<Rightarrow> 's world \<Rightarrow> (js_error + response) \<times> 's world" where
  "list_try ds requestingCustomerId w =
     (case db_query (select_accounts_of_customer ds) SelectAccountsOfCustomer requestingCustomerId w of
        (r, w1) \<Rightarrow>
          (case q_error r of
             Some e \<Rightarrow>
               (Inr \<lparr>statusCode = 500,
                     body = Json (JObj [(''message'', JStr ''Database error listing accounts''),
                                        (''details'', opt_str (err_message e))])\<rparr>, w1)
           | None \<Rightarrow>
               if \<not> truthy (q_data r) \<or> strict_eq (js_length (q_data r)) (JNum 0)
               then (Inr \<lparr>statusCode = 200, body = Json (JArr [])\<rparr>, w1)
               else
                 (case q_data r of
                    JArr accounts \<Rightarrow>
                      (case accounts_with_balance ds accounts w1 of
                         (Inl err, w2) \<Rightarrow> (Inl err, w2)
                       | (Inr accountsWithBalance, w2) \<Rightarrow>
                           (Inr \<lparr>statusCode = 200, body = Json (JArr accountsWithBalance)\<rparr>, w2))
                  | _ \<Rightarrow> (Inl (TypeError ''accounts.map is not a function''), w1))))"

text \<open>\<^verbatim>\<open>handleListAccounts(req, verifiedToken)\<close>.\<close>

definition handleListAccounts ::
  "'s datastore \<Rightarrow> (jsval \<Rightarrow> string) \<Rightarrow> request \<Rightarrow> jsval \<Rightarrow> 's world
     \<Rightarrow> (js_error + response) \<times> 's world" where
  "handleListAccounts ds other req verifiedToken w =
     (if \<not> truthy (query_customerId req)
      then (Inr (message_response 400 ''Missing customerId query parameter''), w)
      else
        (case getCustomerIdFromAuth0Sub ds (get_prop verifiedToken ''sub'') w of
           (requestingCustomerId, w1) \<Rightarrow>
             if \<not> truthy requestingCustomerId
                \<or> \<not> is_customer other requestingCustomerId (query_customerId req)
             then (Inr (message_response 403 ''Forbidden: You can only list your own accounts.''), w1)
             else
               (case list_try ds requestingCustomerId w1 of
                  (Inl err, w2) \<Rightarrow>
                    (Inr (message_response 500 (''Internal server error: '' @ error_message err)), w2)
                | (Inr r, w2) \<Rightarrow> (Inr r, w2))))"

text \<open>The last part of \<^verbatim>\<open>req.path.split('/')\<close>.\<close>

definition last_path_part :: "string \<Rightarrow> string" where
  "last_path_part p = rev (takeWhile (\<lambda>c. c \<noteq> CHR ''/'') (rev p))"

text \<open>\<^verbatim>\<open>handleGetAccount(req, verifiedToken)\<close>; everything after the check of the path
  is inside the \<^verbatim>\<open>try\<close> block, in which nothing throws: the account row is truthy when
  its owner is read.\<close>

definition handleGetAccount ::
  "'s datastore \<Rightarrow> request \<Rightarrow> jsval \<Rightarrow> 's world \<Rightarrow> (js_error + response) \<times> 's world" where
  "handleGetAccount ds req verifiedToken w =
     (let accountId = last_path_part (path req) in
      if accountId = [] \<or> length accountId < 10
      then (Inr (message_response 400 ''Missing or invalid account ID in path''), w)
      else
        (case db_query (select_account ds) SelectAccount accountId w of
           (account, w1) \<Rightarrow>
             (case q_error account of
                Some e \<Rightarrow>
                  if err_code e = Some ''PGRST116'' \<or> err_code e = Some ''22P02''
                  then (Inr (message_response 404 ''Account not found''), w1)
                  else (Inr \<lparr>statusCode = 500,
                             body = Json (JObj [(''message'', JStr ''Database error getting account''),
                                                (''details'', opt_str (err_message e))])\<rparr>, w1)
              | None \<Rightarrow>
                  if \<not> truthy (q_data account)
                  then (Inr (message_response 404 ''Account not found''), w1)
                  else
                    (case getCustomerIdFromAuth0Sub ds (get_prop verifiedToken ''sub'') w1 of
                       (requestingCustomerId, w2) \<Rightarrow>
                         if \<not> truthy requestingCustomerId
                            \<or> \<not> strict_eq requestingCustomerId (get_prop (q_data account) ''customer_id'')
                         then (Inr (message_response 403
                                 ''Forbidden: You can only view your own accounts.''), w2)
                         else
                           (case db_query (rpc_calculate_balance ds) RpcCalculateBalance
                                   (get_prop (q_data account) ''id'') w2 of
                              (reply, w3) \<Rightarrow>
                                (Inr \<lparr>statusCode = 200,
                                      body = Json (spread_with (q_data account) ''balance''
                                                     (shown_balance reply))\<rparr>, w3))))))"

section \<open>Vocabulary of the properties\<close>

text \<open>The datastore calls made since the world \<open>w\<close>.\<close>

definition new_calls :: "'s world \<Rightarrow> 's world \<Rightarrow> db_call list" where
  "new_calls w w' = drop (length (calls w)) (calls w')"

text \<open>The spec's words for the currency of a transfer request: a well-formed 3-letter
  code.\<close>

definition is_letter :: "char \<Rightarrow> bool" where
  "is_letter c = (c \<in> set ''abcdefghijklmnopqrstuvwxyzABCDEFGHIJKLMNOPQRSTUVWXYZ'')"

definition well_formed_currency_code :: "jsval \<Rightarrow> bool" where
  "well_formed_currency_code v =
     (case v of JStr s \<Rightarrow> length s = 3 \<and> list_all is_letter s | _ \<Rightarrow> False)"





section \<open>The ledger routine, modelled from the spec\<close>

text \<open>
  The database routine \<^verbatim>\<open>post_ledger_transaction\<close>, which the transfer handler calls,
  is not among the sources. The definitions of this section follow the spec's sections 3
  and 4.1 to 4.3 instead; each says so.
\<close>

text \<open>Modelled from the spec: the directions of an entry, the statuses of an account and
  of a transaction, and the error kinds of its taxonomy (the ledger's types are missing
  from the sources); \<open>LedgerCorruption\<close> is the error of the Balance Calculator.\<close>

datatype direction = DEBIT | CREDIT

datatype account_status = ACTIVE | DORMANT | PENDING_CLOSURE | CLOSED

datatype transaction_status = COMPLETED | REJECTED

datatype ledger_error =
    InvalidInput
  | AccountNotFound
  | AccountIneligible
  | InsufficientFunds
  | Conflict
  | StorageError
  | LedgerCorruption

text \<open>Modelled from the spec: the Account, Transaction and Ledger Entry of its data
  model (the ledger's tables are missing from the sources).\<close>

record account =
  a_id :: string
  a_account_number :: string
  a_currency :: string
  a_status :: account_status

record ledger_transaction =
  t_id :: string
  t_amount :: rat
  t_currency :: string
  t_debit_account_id :: string
  t_credit_account_id :: string
  t_description :: jsval
  t_created_at :: nat
  t_status :: transaction_status

record ledger_entry =
  e_id :: string
  e_transaction_id :: string
  e_account_id :: string
  e_direction :: direction
  e_amount :: rat
  e_currency :: string
  e_created_at :: nat

text \<open>Modelled from the spec: the persisted layout, with a clock for \<open>created_at\<close> and,
  for the I/O failures of the store, the fate of the coming writes (\<open>True\<close>: the write
  fails).\<close>

record ledger =
  accounts :: "account list"
  transactions :: "ledger_transaction list"
  entries :: "ledger_entry list"
  clock :: nat
  io_failures :: "bool list"

text \<open>Modelled from the spec: Ledger Store \<open>post\<close>. It fails with \<open>Conflict\<close> if the
  transaction's id exists and with \<open>StorageError\<close> on an I/O failure; otherwise the
  transaction and both entries are written as one unit.\<close>

definition ledger_post ::
  "ledger_transaction \<Rightarrow> ledger_entry \<Rightarrow> ledger_entry \<Rightarrow> ledger
     \<Rightarrow> (ledger_error + ledger_transaction) \<times> ledger" where
  "ledger_post txn debit_entry credit_entry l =
     (if t_id txn \<in> set (map t_id (transactions l)) then (Inl Conflict, l)
      else if (case io_failures l of [] \<Rightarrow> False | f # fs \<Rightarrow> f)
      then (Inl StorageError, l\<lparr>io_failures := tl (io_failures l)\<rparr>)
      else (Inr txn, l\<lparr>transactions := transactions l @ [txn],
                        entries := entries l @ [debit_entry, credit_entry],
                        clock := clock l + 1,
                        io_failures := tl (io_failures l)\<rparr>))"

text \<open>Modelled from the spec: Ledger Store \<open>entries_for\<close>, the entries of one account,
  optionally those created at or before \<open>as_of\<close>.\<close>

definition entries_for :: "ledger \<Rightarrow> string \<Rightarrow> nat option \<Rightarrow> ledger_entry list" where
  "entries_for l account_id as_of =
     filter (\<lambda>e. e_account_id e = account_id \<and>
                 (case as_of of None \<Rightarrow> True | Some t \<Rightarrow> e_created_at e \<le> t))
            (entries l)"

text \<open>Modelled from the spec: Balance Calculator \<open>balance\<close>, the credits less the debits
  of the account's entries; an error if an entry's currency is not the account's.\<close>

definition balance :: "ledger \<Rightarrow> account \<Rightarrow> nat option \<Rightarrow> ledger_error + rat" where
  "balance l acc as_of =
     (let es = entries_for l (a_id acc) as_of in
      if list_ex (\<lambda>e. e_currency e \<noteq> a_currency acc) es then Inl LedgerCorruption
      else Inr (sum_list (map e_amount (filter (\<lambda>e. e_direction e = CREDIT) es))
                - sum_list (map e_amount (filter (\<lambda>e. e_direction e = DEBIT) es))))"

text \<open>Modelled from the spec: Account Directory \<open>get_account\<close>.\<close>

definition get_account :: "ledger \<Rightarrow> string \<Rightarrow> account option" where
  "get_account l account_id = find (\<lambda>a. a_id a = account_id) (accounts l)"

text \<open>Modelled from the spec: Transfer Engine \<open>transfer\<close>, steps 1 to 5 of its contract.
  A \<open>Conflict\<close> of the store is answered with the transaction already posted under the
  id.\<close>

definition transfer ::
  "string \<Rightarrow> string \<Rightarrow> rat \<Rightarrow> string \<Rightarrow> jsval \<Rightarrow> string \<Rightarrow> ledger
     \<Rightarrow> (ledger_error + ledger_transaction) \<times> ledger" where
  "transfer debit_account_id credit_account_id amount currency description transaction_id l =
     (if amount \<le> 0 \<or> \<not> well_formed_currency_code (JStr currency)
         \<or> debit_account_id = credit_account_id
      then (Inl InvalidInput, l)
      else
        (case (get_account l debit_account_id, get_account l credit_account_id) of
           (Some debit_account, Some credit_account) \<Rightarrow>
             if a_status debit_account \<noteq> ACTIVE \<or> a_status credit_account \<noteq> ACTIVE
                \<or> a_currency debit_account \<noteq> currency \<or> a_currency credit_account \<noteq> currency
             then (Inl AccountIneligible, l)
             else
               (case balance l debit_account None of
                  Inl err \<Rightarrow> (Inl err, l)
                | Inr b \<Rightarrow>
                    if b < amount then (Inl InsufficientFunds, l)
                    else
                      (case ledger_post
                              \<lparr>t_id = transaction_id, t_amount = amount, t_currency = currency,
                               t_debit_account_id = debit_account_id,
                               t_credit_account_id = credit_account_id,
                               t_description = description, t_created_at = clock l,
                               t_status = COMPLETED\<rparr>
                              \<lparr>e_id = transaction_id @ ''/debit'', e_transaction_id = transaction_id,
                               e_account_id = debit_account_id, e_direction = DEBIT,
                               e_amount = amount, e_currency = currency, e_created_at = clock l\<rparr>
                              \<lparr>e_id = transaction_id @ ''/credit'', e_transaction_id = transaction_id,
                               e_account_id = credit_account_id, e_direction = CREDIT,
                               e_amount = amount, e_currency = currency, e_created_at = clock l\<rparr>
                              l of
                         (Inl Conflict, l') \<Rightarrow>
                           (case find (\<lambda>t. t_id t = transaction_id) (transactions l') of
                              Some existing \<Rightarrow> (Inr existing, l')
                            | None \<Rightarrow> (Inl Conflict, l'))
                       | (r, l') \<Rightarrow> (r, l')))
         | _ \<Rightarrow> (Inl AccountNotFound, l)))"

text \<open>Modelled from the spec: the names of the error kinds.\<close>

definition ledger_error_name :: "ledger_error \<Rightarrow> string" where
  "ledger_error_name e =
     (case e of
        InvalidInput \<Rightarrow> ''InvalidInput''
      | AccountNotFound \<Rightarrow> ''AccountNotFound''
      | AccountIneligible \<Rightarrow> ''AccountIneligible''
      | InsufficientFunds \<Rightarrow> ''InsufficientFunds''
      | Conflict \<Rightarrow> ''Conflict''
      | StorageError \<Rightarrow> ''StorageError''
      | LedgerCorruption \<Rightarrow> ''LedgerCorruption'')"

text \<open>Modelled from the spec: the routine \<^verbatim>\<open>post_ledger_transaction\<close> behind the
  handler's call, as the Transfer Engine on the arguments of the call. Account
  identifiers that are not strings are invalid input. An error is reported with the name
  of its kind as the message (the spec does not give the text).\<close>

definition post_ledger_transaction :: "post_args \<Rightarrow> ledger \<Rightarrow> pg_error option \<times> ledger" where
  "post_ledger_transaction a l =
     (case (p_debit_account_id a, p_credit_account_id a) of
        (JStr debit_account_id, JStr credit_account_id) \<Rightarrow>
          (case transfer debit_account_id credit_account_id (p_amount a) (p_currency a)
                  (p_description a) (p_transaction_id a) l of
             (Inl err, l') \<Rightarrow>
               (Some \<lparr>err_code = None, err_message = Some (ledger_error_name err)\<rparr>, l')
           | (Inr txn, l') \<Rightarrow> (None, l'))
      | _ \<Rightarrow> (Some \<lparr>err_code = None, err_message = Some (ledger_error_name InvalidInput)\<rparr>, l))"

text \<open>The double-entry invariant in the spec's words: every posted transaction has
  exactly two entries, one \<open>DEBIT\<close> and one \<open>CREDIT\<close>, of equal amount and currency; and
  every entry belongs to a posted transaction.\<close>

definition entries_of :: "string \<Rightarrow> ledger \<Rightarrow> ledger_entry list" where
  "entries_of transaction_id l = filter (\<lambda>e. e_transaction_id e = transaction_id) (entries l)"

definition balanced_pair :: "ledger_entry list \<Rightarrow> bool" where
  "balanced_pair es =
     (case es of
        [x, y] \<Rightarrow>
          (e_direction x = DEBIT \<and> e_direction y = CREDIT
             \<or> e_direction x = CREDIT \<and> e_direction y = DEBIT)
          \<and> e_amount x = e_amount y \<and> e_currency x = e_currency y
      | _ \<Rightarrow> False)"

definition double_entry :: "ledger \<Rightarrow> bool" where
  "double_entry l =
     (list_all (\<lambda>t. balanced_pair (entries_of (t_id t) l)) (transactions l)
      \<and> list_all (\<lambda>e. e_transaction_id e \<in> set (map t_id (transactions l))) (entries l))"

section \<open>A small datastore for examples\<close>

text \<open>
  Replies as the client gives them: a row, \<^verbatim>\<open>.single()\<close> without a row (an error),
  \<^verbatim>\<open>.maybeSingle()\<close> without a row (neither data nor error).
\<close>

definition found :: "jsval \<Rightarrow> query_result" where
  "found v = \<lparr>q_data = v, q_error = None\<rparr>"

definition no_single_row :: query_result where
  "no_single_row =
     \<lparr>q_data = JNull,
      q_error = Some \<lparr>err_code = Some ''PGRST116'',
                      err_message = Some ''JSON object requested, multiple (or no) rows returned''\<rparr>\<rparr>"

definition no_row :: query_result where
  "no_row = \<lparr>q_data = JNull, q_error = None\<rparr>"

definition alice_account :: jsval where
  "alice_account =
     JObj [(''id'', JStr ''a11ce000-0000-4000-8000-000000000001''), (''customer_id'', JNum 7),
           (''account_number'', JStr ''4000000001''), (''account_type'', JStr ''CHECKING''),
           (''status'', JStr ''ACTIVE''), (''currency'', JStr ''USD''), (''nickname'', JNull)]"

text \<open>
  One customer (id 7, known to the identity provider as \<open>auth0|alice\<close>) with one
  account; a second account belongs to customer 8. The ledger routine is a parameter; the
  balance routine answers 25.
\<close>

definition demo_datastore_with :: "(post_args \<Rightarrow> 's \<Rightarrow> pg_error option \<times> 's) \<Rightarrow> 's datastore" where
  "demo_datastore_with post =
     \<lparr>select_customer_id =
        (\<lambda>sub s. (if sub = JStr ''auth0|alice'' then found (JObj [(''id'', JNum 7)])
                   else no_single_row, s)),
      select_account_owner =
        (\<lambda>k s. (if k = JStr ''a11ce000-0000-4000-8000-000000000001'' then found (JObj [(''customer_id'', JNum 7)])
                 else if k = JStr ''b0b00000-0000-4000-8000-000000000002'' then found (JObj [(''customer_id'', JNum 8)])
                 else no_single_row, s)),
      rpc_post_ledger_transaction = post,
      select_account_number =
        (\<lambda>n s. (if n = ''4000000001'' then found (JObj [(''account_number'', JStr n)])
                 else no_row, s)),
      insert_account =
        (\<lambda>a s. (found (JObj [(''id'', JStr ''a11ce000-0000-4000-8000-000000000003''),
                               (''customer_id'', i_customer_id a),
                               (''account_number'', JStr (i_account_number a)),
                               (''account_type'', i_account_type a),
                               (''status'', JStr ''ACTIVE''),
                               (''currency'', JStr (i_currency a)),
                               (''nickname'', i_nickname a)]), s)),
      select_accounts_of_customer =
        (\<lambda>c s. (if c = JNum 7 then found (JArr [alice_account]) else found (JArr []), s)),
      select_account =
        (\<lambda>k s. (if k = ''a11ce000-0000-4000-8000-000000000001'' then found alice_account else no_single_row, s)),
      rpc_calculate_balance = (\<lambda>k s. (RpcReplied (found (JNum 25)), s))\<rparr>"

text \<open>With a ledger routine that accepts every posting; the store is the list of the
  postings accepted.\<close>

definition demo_datastore :: "post_args list datastore" where
  "demo_datastore = demo_datastore_with (\<lambda>a s. (None, s @ [a]))"

definition demo_world :: "post_args list world" where
  "demo_world = \<lparr>store = [], calls = []\<rparr>"

definition demo_token :: jsval where
  "demo_token = JObj [(''sub'', JStr ''auth0|alice'')]"

text \<open>A transfer of 10 from one account to another, with a transaction id of the
  caller's in the body.\<close>

definition demo_transfer_body :: "string \<Rightarrow> string \<Rightarrow> string \<Rightarrow> jsval" where
  "demo_transfer_body debit credit cur =
     JObj [(''fromAccountId'', JStr debit),
           (''toAccountId'', JStr credit),
           (''amount'', JNum 10),
           (''currency'', JStr cur),
           (''transaction_id'', JStr ''tx-1'')]"

definition demo_transfer :: "string \<Rightarrow> string \<Rightarrow> string \<Rightarrow> request" where
  "demo_transfer debit credit cur =
     \<lparr>parsed_body = Some (demo_transfer_body debit credit cur),
      path = ''/api/transaction-service/transfers/internal'',
      query_customerId = JUndefined\<rparr>"

text \<open>A datastore whose balance routine fails, as it would on a ledger whose entries
  disagree with the account's currency.\<close>

definition failing_balance_datastore :: "post_args list datastore" where
  "failing_balance_datastore =
     demo_datastore\<lparr>rpc_calculate_balance :=
       (\<lambda>k s. (RpcReplied \<lparr>q_data = JNull,
                             q_error = Some \<lparr>err_code = Some ''P0001'',
                                             err_message = Some ''currency mismatch in ledger''\<rparr>\<rparr>, s))\<rparr>"

definition demo_get :: request where
  "demo_get = \<lparr>parsed_body = None,
               path = ''/api/account-service/accounts/a11ce000-0000-4000-8000-000000000001'',
               query_customerId = JUndefined\<rparr>"

definition demo_list :: request where
  "demo_list = \<lparr>parsed_body = None,
                path = ''/api/account-service/accounts'',
                query_customerId = JStr ''7''\<rparr>"

text \<open>A ledger with two active USD accounts; Alice's was funded with 100 by an earlier
  transaction.\<close>

definition demo_ledger :: ledger where
  "demo_ledger =
     \<lparr>accounts = [\<lparr>a_id = ''a11ce000-0000-4000-8000-000000000001'', a_account_number = ''4000000001'',
                   a_currency = ''USD'', a_status = ACTIVE\<rparr>,
                  \<lparr>a_id = ''b0b00000-0000-4000-8000-000000000002'', a_account_number = ''4000000002'',
                   a_currency = ''USD'', a_status = ACTIVE\<rparr>],
      transactions = [\<lparr>t_id = ''t-0'', t_amount = 100, t_currency = ''USD'',
                       t_debit_account_id = ''b0b00000-0000-4000-8000-000000000002'',
                       t_credit_account_id = ''a11ce000-0000-4000-8000-000000000001'',
                       t_description = JNull, t_created_at = 0, t_status = COMPLETED\<rparr>],
      entries = [\<lparr>e_id = ''t-0/debit'', e_transaction_id = ''t-0'', e_account_id = ''b0b00000-0000-4000-8000-000000000002'',
                  e_direction = DEBIT, e_amount = 100, e_currency = ''USD'', e_created_at = 0\<rparr>,
                 \<lparr>e_id = ''t-0/credit'', e_transaction_id = ''t-0'', e_account_id = ''a11ce000-0000-4000-8000-000000000001'',
                  e_direction = CREDIT, e_amount = 100, e_currency = ''USD'', e_created_at = 0\<rparr>],
      clock = 1,
      io_failures = []\<rparr>"

lemmas js_simps =
  get_prop_def js_length_def own_props_def spread_with_def toUpperCase_def upper_char_def
  js_includes_def split_second_def trim_def is_space_def opt_str_def

lemmas demo_simps =
  found_def no_single_row_def no_row_def alice_account_def demo_datastore_with_def
  demo_datastore_def
  demo_world_def demo_token_def demo_transfer_def demo_transfer_body_def

lemmas transfer_simps =
  handleInternalTransfer_def transfer_validation_def transfer_try_def
  getCustomerIdFromAuth0Sub_def db_query_def customer_of_def row_found_def
  transfer_args_def posting_response_def dbErrorMessage_def message_response_def Let_def

text \<open>A datastore in which every candidate number is taken, and a request to open an
  account.\<close>

definition taken_datastore :: "post_args list datastore" where
  "taken_datastore =
     demo_datastore\<lparr>select_account_number :=
       (\<lambda>n s. (found (JObj [(''account_number'', JStr n)]), s))\<rparr>"

definition demo_create :: "string \<Rightarrow> request" where
  "demo_create cur =
     \<lparr>parsed_body = Some (JObj [(''customerId'', JNum 7), (''accountType'', JStr ''CHECKING''),
                                (''currency'', JStr cur), (''nickname'', JStr ''main'')]),
      path = ''/api/account-service/accounts'',
      query_customerId = JUndefined\<rparr>"

lemmas account_simps =
  generateUniqueAccountNumber_def generateUniqueAccountNumber_from.simps randomInt_def
  string_of_nat.simps create_validation_def create_args_def create_try_def
  handleCreateAccount_def is_customer_def js_text_def parseInt10_def is_digit_def
  digits_value_def balance_failed_def shown_balance_def account_with_balance_def
  list_try_def handleListAccounts_def last_path_part_def handleGetAccount_def
  getCustomerIdFromAuth0Sub_def db_query_def customer_of_def row_found_def
  message_response_def Let_def taken_datastore_def demo_create_def

lemmas ledger_simps =
  ledger_post_def entries_for_def balance_def get_account_def transfer_def
  ledger_error_name_def post_ledger_transaction_def entries_of_def balanced_pair_def
  double_entry_def well_formed_currency_code_def is_letter_def demo_ledger_def

section \<open>Properties of the internal transfer\<close>

lemma transfer_try_outcome:
  assumes "transfer_try ds uuid b tok w = (res, w')"
  shows "\<exists>r1.
     (\<not> truthy (customer_of r1) \<and>
        calls w' = calls w @ [SelectCustomerId (get_prop tok ''sub'') r1] \<and>
        res = Inr (message_response 403 ''Could not identify requesting customer'')) \<or>
     (\<exists>r2. truthy (customer_of r1) \<and>
        calls w' = calls w @ [SelectCustomerId (get_prop tok ''sub'') r1,
                              SelectAccountOwner (get_prop b ''fromAccountId'') r2] \<and>
        ((\<not> row_found r2 \<and>
            res = Inr \<lparr>statusCode = 404,
                        body = MessageTemplate ''Debit account not found: '' (get_prop b ''fromAccountId'')\<rparr>) \<or>
         (row_found r2 \<and> \<not> strict_eq (get_prop (q_data r2) ''customer_id'') (customer_of r1) \<and>
            res = Inr (message_response 403 ''Forbidden: You do not own the source account.'')) \<or>
         (row_found r2 \<and> strict_eq (get_prop (q_data r2) ''customer_id'') (customer_of r1) \<and>
            (\<forall>c. get_prop b ''currency'' \<noteq> JStr c) \<and>
            res = Inl (TypeError ''currency.toUpperCase is not a function'')))) \<or>
     (\<exists>r2 e c. truthy (customer_of r1) \<and> row_found r2 \<and>
        strict_eq (get_prop (q_data r2) ''customer_id'') (customer_of r1) \<and>
        get_prop b ''currency'' = JStr c \<and>
        calls w' = calls w @ [SelectCustomerId (get_prop tok ''sub'') r1,
                              SelectAccountOwner (get_prop b ''fromAccountId'') r2,
                              RpcPostLedgerTransaction (transfer_args uuid b c) e] \<and>
        res = Inr (posting_response uuid e))"
proof -
  let ?sub = "get_prop tok ''sub''" and ?from = "get_prop b ''fromAccountId''"
  obtain r1 s1 where q1: "select_customer_id ds ?sub (store w) = (r1, s1)"
    by fastforce
  obtain r2 s2 where q2: "select_account_owner ds ?from s1 = (r2, s2)"
    by fastforce
  let ?w1 = "\<lparr>store = s1, calls = calls w @ [SelectCustomerId ?sub r1]\<rparr>"
  let ?w2 = "\<lparr>store = s2, calls = calls w @ [SelectCustomerId ?sub r1, SelectAccountOwner ?from r2]\<rparr>"
  have c1: "getCustomerIdFromAuth0Sub ds ?sub w = (customer_of r1, ?w1)"
    by (simp add: getCustomerIdFromAuth0Sub_def db_query_def q1)
  have c2: "db_query (select_account_owner ds) SelectAccountOwner ?from ?w1 = (r2, ?w2)"
    by (simp add: db_query_def q2)
  consider (nocust) "\<not> truthy (customer_of r1)"
    | (norow) "truthy (customer_of r1)" "\<not> row_found r2"
    | (notowner) "truthy (customer_of r1)" "row_found r2"
        "\<not> strict_eq (get_prop (q_data r2) ''customer_id'') (customer_of r1)"
    | (nostr) "truthy (customer_of r1)" "row_found r2"
        "strict_eq (get_prop (q_data r2) ''customer_id'') (customer_of r1)"
        "\<forall>c. get_prop b ''currency'' \<noteq> JStr c"
    | (post) c where "truthy (customer_of r1)" "row_found r2"
        "strict_eq (get_prop (q_data r2) ''customer_id'') (customer_of r1)"
        "get_prop b ''currency'' = JStr c"
    by blast
  then show ?thesis
  proof cases
    case nocust
    with assms have "res = Inr (message_response 403 ''Could not identify requesting customer'') \<and> w' = ?w1"
      by (auto simp: transfer_try_def Let_def c1)
    with nocust show ?thesis by (intro exI[of _ r1]) simp
  next
    case norow
    with assms have "res = Inr \<lparr>statusCode = 404,
          body = MessageTemplate ''Debit account not found: '' ?from\<rparr> \<and> w' = ?w2"
      by (auto simp: transfer_try_def Let_def c1 c2)
    with norow show ?thesis by (intro exI[of _ r1]) auto
  next
    case notowner
    with assms have "res = Inr (message_response 403 ''Forbidden: You do not own the source account.'') \<and> w' = ?w2"
      by (auto simp: transfer_try_def Let_def c1 c2)
    with notowner show ?thesis by (intro exI[of _ r1]) auto
  next
    case nostr
    with assms have "res = Inl (TypeError ''currency.toUpperCase is not a function'') \<and> w' = ?w2"
      by (cases "get_prop b ''currency''") (auto simp: transfer_try_def Let_def c1 c2)
    with nostr show ?thesis by (intro exI[of _ r1]) auto
  next
    case post
    obtain e s3 where q3: "rpc_post_ledger_transaction ds (transfer_args uuid b c) s2 = (e, s3)"
      by fastforce
    with assms post have "res = Inr (posting_response uuid e) \<and>
        w' = \<lparr>store = s3, calls = calls w @ [SelectCustomerId ?sub r1, SelectAccountOwner ?from r2,
                 RpcPostLedgerTransaction (transfer_args uuid b c) e]\<rparr>"
      by (auto simp: transfer_try_def Let_def c1 db_query_def q2)
    with post show ?thesis by (intro exI[of _ r1]) auto
  qed
qed

text \<open>A request that passes validation runs the \<^verbatim>\<open>try\<close> block; an exception there
  becomes a 500 response.\<close>

lemma handleInternalTransfer_validated:
  assumes "parsed_body req = Some b" "b \<noteq> JNull" "b \<noteq> JUndefined" "transfer_validation b = None"
  shows "handleInternalTransfer ds uuid req tok w =
     (case transfer_try ds uuid b tok w of
        (Inl err, w') \<Rightarrow>
          (Inr (message_response 500 (''Internal server error: '' @ error_message err)), w')
      | (Inr r, w') \<Rightarrow> (Inr r, w'))"
  using assms by (simp add: handleInternalTransfer_def)

lemma handleInternalTransfer_not_validated:
  assumes "handleInternalTransfer ds uuid req tok w = (res, w')"
    and "\<not> (\<exists>b. parsed_body req = Some b \<and> b \<noteq> JNull \<and> b \<noteq> JUndefined \<and> transfer_validation b = None)"
  shows "w' = w"
  using assms by (auto simp: handleInternalTransfer_def split: option.splits if_splits)



lemma handleInternalTransfer_posting:
  assumes "handleInternalTransfer ds uuid req tok w = (res, w')"
    and "RpcPostLedgerTransaction a e \<in> set (new_calls w w')"
  shows "\<exists>b c r1 r2. parsed_body req = Some b \<and> transfer_validation b = None \<and>
           get_prop b ''currency'' = JStr c \<and> a = transfer_args uuid b c \<and>
           new_calls w w' = [SelectCustomerId (get_prop tok ''sub'') r1,
                             SelectAccountOwner (get_prop b ''fromAccountId'') r2,
                             RpcPostLedgerTransaction a e] \<and>
           res = Inr (posting_response uuid e)"
proof (cases "\<exists>b. parsed_body req = Some b \<and> b \<noteq> JNull \<and> b \<noteq> JUndefined \<and> transfer_validation b = None")
  case False
  from handleInternalTransfer_not_validated[OF assms(1) False] assms(2)
  show ?thesis by (simp add: new_calls_def)
next
  case True
  then obtain b where b: "parsed_body req = Some b" "b \<noteq> JNull" "b \<noteq> JUndefined"
      "transfer_validation b = None" by blast
  obtain res0 where t: "transfer_try ds uuid b tok w = (res0, w')"
    and r: "res = (case res0 of Inl err \<Rightarrow>
                Inr (message_response 500 (''Internal server error: '' @ error_message err))
              | Inr r \<Rightarrow> Inr r)"
    using assms(1) unfolding handleInternalTransfer_validated[OF b]
    by (auto split: prod.splits sum.splits)
  from transfer_try_outcome[OF t] assms(2) b(1,4) show ?thesis
    by (auto simp: new_calls_def r)
qed







section \<open>The marker in a database error message\<close>

lemma starts_with_iff: "starts_with p s \<longleftrightarrow> (\<exists>r. s = p @ r)"
  by (induction p s rule: starts_with.induct) auto

lemma split_at_first_sound:
  "split_at_first pat s = Some (b, a) \<Longrightarrow> s = b @ pat @ a"
proof (induction s arbitrary: b a)
  case Nil
  then show ?case by (simp split: if_splits)
next
  case (Cons c cs)
  show ?case
  proof (cases "starts_with pat (c # cs)")
    case True
    then obtain r where r: "c # cs = pat @ r" by (auto simp: starts_with_iff)
    from True Cons.prems have "b = [] \<and> a = drop (length pat) (c # cs)" by auto
    with r show ?thesis by simp
  next
    case False
    with Cons.prems obtain b' where "split_at_first pat cs = Some (b', a)" "b = c # b'"
      by (auto split: option.splits)
    with Cons.IH show ?thesis by simp
  qed
qed

lemma split_at_first_complete:
  "split_at_first pat (b @ pat @ a) \<noteq> None"
proof (induction b)
  case Nil
  show ?case
  proof (cases "pat @ a")
    case Nil then show ?thesis by simp
  next
    case (Cons c cs)
    have "starts_with pat (pat @ a)" by (auto simp: starts_with_iff)
    with Cons show ?thesis by simp
  qed
next
  case (Cons c b)
  then show ?case by (auto split: option.splits)
qed

text \<open>\<open>js_includes\<close> is containment as a substring.\<close>

lemma js_includes_iff: "js_includes s pat \<longleftrightarrow> (\<exists>b a. s = b @ pat @ a)"
  using split_at_first_sound split_at_first_complete
  by (fastforce simp: js_includes_def)

text \<open>After a prefix without a colon, the first marker is the one that follows the
  prefix: no occurrence starts inside the prefix.\<close>

lemma marker_not_early:
  assumes "CHR '':'' \<notin> set (c # cs)"
  shows "\<not> starts_with ''EXCEPTION:'' ((c # cs) @ ''EXCEPTION:'' @ rest)"
proof
  define M where "M = ''EXCEPTION:''"
  assume "starts_with ''EXCEPTION:'' ((c # cs) @ ''EXCEPTION:'' @ rest)"
  then obtain r where r: "(c # cs) @ (M @ rest) = M @ r"
    unfolding M_def starts_with_iff by blast
  then consider us where "c # cs = M @ us"
    | us where "(c # cs) @ us = M" "M @ rest = us @ r"
    unfolding append_eq_append_conv2 by blast
  then show False
  proof cases
    case 1
    then have "CHR '':'' \<in> set (c # cs)" unfolding M_def by simp
    with assms show False by simp
  next
    case 2
    from 2(1) assms have "c = CHR ''E''" "cs @ us = ''XCEPTION:''" "CHR '':'' \<notin> set cs"
      unfolding M_def by auto
    then have "us \<in> {''XCEPTION:'', ''CEPTION:'', ''EPTION:'', ''PTION:'', ''TION:'',
               ''ION:'', ''ON:'', ''N:'', '':''}"
      by (auto simp: append_eq_Cons_conv)
    with 2(2) show False unfolding M_def by auto
  qed
qed

lemma split_at_first_marker:
  assumes "CHR '':'' \<notin> set pre"
  shows "split_at_first ''EXCEPTION:'' (pre @ ''EXCEPTION:'' @ rest) = Some (pre, rest)"
  using assms
proof (induction pre)
  case Nil
  show ?case by simp
next
  case (Cons c cs)
  from Cons.prems have "\<not> starts_with ''EXCEPTION:'' ((c # cs) @ ''EXCEPTION:'' @ rest)"
    by (rule marker_not_early)
  with Cons show ?case by simp
qed

lemma dbErrorMessage_no_marker:
  assumes "err_message e = None \<or> (\<exists>m. err_message e = Some m \<and> \<not> (\<exists>b a. m = b @ ''EXCEPTION:'' @ a))"
  shows "dbErrorMessage e = ''Transaction failed due to database error.''"
  using assms by (auto simp: dbErrorMessage_def js_includes_iff)

lemma dbErrorMessage_marker:
  assumes "err_message e = Some (pre @ ''EXCEPTION:'' @ rest)" "CHR '':'' \<notin> set pre"
    and "\<not> (\<exists>b a. rest = b @ ''EXCEPTION:'' @ a)"
  shows "dbErrorMessage e = trim rest"
proof -
  have "\<not> js_includes rest ''EXCEPTION:''"
    using assms(3) unfolding js_includes_iff by blast
  then have "split_at_first ''EXCEPTION:'' rest = None"
    unfolding js_includes_def by blast
  then have "split_second (pre @ ''EXCEPTION:'' @ rest) ''EXCEPTION:'' = Some rest"
    using split_at_first_marker[OF assms(2), of rest] by (simp add: split_second_def)
  moreover have "js_includes (pre @ ''EXCEPTION:'' @ rest) ''EXCEPTION:''"
    unfolding js_includes_iff by blast
  ultimately show ?thesis using assms(1) by (simp add: dbErrorMessage_def)
qed

text \<open>
  C7. As the claim states it, an insufficient-funds rejection is never masked as a generic
  failure message. The handler shows the text of a database error only when the error
  message carries the marker \<^verbatim>\<open>EXCEPTION:\<close>; a ledger routine that rejects with the
  message \<open>Insufficient funds\<close> is answered with the fixed text.
\<close>

theorem transfer_masks_unmarked_rejection:
  "fst (handleInternalTransfer
      (demo_datastore\<lparr>rpc_post_ledger_transaction :=
         (\<lambda>a s. (Some \<lparr>err_code = Some ''P0001'', err_message = Some ''Insufficient funds''\<rparr>, s))\<rparr>)
      ''11111111-1111-4111-8111-111111111111'' (demo_transfer ''a11ce000-0000-4000-8000-000000000001'' ''b0b00000-0000-4000-8000-000000000002'' ''USD'') demo_token demo_world)
    = Inr \<lparr>statusCode = 422,
           body = Json (JObj [(''message'', JStr ''Transaction failed.''),
                              (''details'', JStr ''Transaction failed due to database error.''),
                              (''transactionId'', JStr ''11111111-1111-4111-8111-111111111111'')])\<rparr>"
  by (simp add: transfer_simps js_simps demo_simps)

text \<open>
  C7, amended. When the posting call reports an error, the transfer is answered with
  status 422, the message \<open>Transaction failed.\<close>, the generated transaction id, and
  details taken from the error: if the error message carries the marker
  \<^verbatim>\<open>EXCEPTION:\<close> (here after a prefix without a colon, and once), the details are the
  text after the marker, trimmed; if the error has no message or the message has no
  marker, the details are the fixed text \<open>Transaction failed due to database error.\<close>
\<close>

theorem transfer_rejection_details:
  assumes "handleInternalTransfer ds uuid req tok w = (res, w')"
    and "RpcPostLedgerTransaction a (Some e) \<in> set (new_calls w w')"
  shows "res = Inr \<lparr>statusCode = 422,
                    body = Json (JObj [(''message'', JStr ''Transaction failed.''),
                                       (''details'', JStr (dbErrorMessage e)),
                                       (''transactionId'', JStr uuid)])\<rparr>
       \<and> (\<forall>pre rest. err_message e = Some (pre @ ''EXCEPTION:'' @ rest) \<and> CHR '':'' \<notin> set pre
              \<and> \<not> (\<exists>b a. rest = b @ ''EXCEPTION:'' @ a)
            \<longrightarrow> dbErrorMessage e = trim rest)
       \<and> (err_message e = None \<or>
            (\<exists>m. err_message e = Some m \<and> \<not> (\<exists>b a. m = b @ ''EXCEPTION:'' @ a))
            \<longrightarrow> dbErrorMessage e = ''Transaction failed due to database error.'')"
proof -
  from handleInternalTransfer_posting[OF assms]
  have "res = Inr (posting_response uuid (Some e))" by blast
  then show ?thesis
    using dbErrorMessage_marker[of e] dbErrorMessage_no_marker[of e]
    by (simp add: posting_response_def)
qed

theorem transfer_rejection_details_witness:
  "fst (handleInternalTransfer
      (demo_datastore\<lparr>rpc_post_ledger_transaction :=
         (\<lambda>a s. (Some \<lparr>err_code = Some ''P0001'',
                        err_message = Some ''ERROR EXCEPTION: Insufficient funds ''\<rparr>, s))\<rparr>)
      ''11111111-1111-4111-8111-111111111111'' (demo_transfer ''a11ce000-0000-4000-8000-000000000001'' ''b0b00000-0000-4000-8000-000000000002'' ''USD'') demo_token demo_world)
    = Inr \<lparr>statusCode = 422,
           body = Json (JObj [(''message'', JStr ''Transaction failed.''),
                              (''details'', JStr ''Insufficient funds''),
                              (''transactionId'', JStr ''11111111-1111-4111-8111-111111111111'')])\<rparr>"
proof -
  let ?e = "\<lparr>err_code = Some ''P0001'', err_message = Some ''ERROR EXCEPTION: Insufficient funds ''\<rparr>"
  let ?ds = "demo_datastore\<lparr>rpc_post_ledger_transaction := (\<lambda>a s. (Some ?e, s))\<rparr>"
  let ?req = "demo_transfer ''a11ce000-0000-4000-8000-000000000001'' ''b0b00000-0000-4000-8000-000000000002'' ''USD''"
  let ?a = "transfer_args ''11111111-1111-4111-8111-111111111111'' (demo_transfer_body ''a11ce000-0000-4000-8000-000000000001'' ''b0b00000-0000-4000-8000-000000000002'' ''USD'') ''USD''"
  obtain res w' where h: "handleInternalTransfer ?ds ''11111111-1111-4111-8111-111111111111'' ?req demo_token demo_world = (res, w')"
    by fastforce
  then have "RpcPostLedgerTransaction ?a (Some ?e) \<in> set (new_calls demo_world w')"
    by (auto simp: transfer_simps js_simps demo_simps new_calls_def)
  from transfer_rejection_details[OF h this]
  have "res = Inr \<lparr>statusCode = 422,
                    body = Json (JObj [(''message'', JStr ''Transaction failed.''),
                                       (''details'', JStr (dbErrorMessage ?e)),
                                       (''transactionId'', JStr ''11111111-1111-4111-8111-111111111111'')])\<rparr>"
    by blast
  moreover have "dbErrorMessage ?e = ''Insufficient funds''"
    by (simp add: dbErrorMessage_def js_simps)
  ultimately show ?thesis using h by simp
qed

lemma handleInternalTransfer_calls_extend:
  assumes "handleInternalTransfer ds uuid req tok w = (res, w')"
  shows "calls w' = calls w @ new_calls w w'"
proof (cases "\<exists>b. parsed_body req = Some b \<and> b \<noteq> JNull \<and> b \<noteq> JUndefined \<and> transfer_validation b = None")
  case False
  from handleInternalTransfer_not_validated[OF assms False]
  show ?thesis by (simp add: new_calls_def)
next
  case True
  then obtain b where b: "parsed_body req = Some b" "b \<noteq> JNull" "b \<noteq> JUndefined"
      "transfer_validation b = None" by blast
  obtain res0 where t: "transfer_try ds uuid b tok w = (res0, w')"
    using assms unfolding handleInternalTransfer_validated[OF b]
    by (auto split: prod.splits sum.splits)
  from transfer_try_outcome[OF t] show ?thesis
    by (auto simp: new_calls_def)
qed

lemma handleInternalTransfer_completed:
  assumes "handleInternalTransfer ds uuid req tok w = (Inr r, w')" and "statusCode r = 200"
  shows "\<exists>b c r1 r2. parsed_body req = Some b \<and> get_prop b ''currency'' = JStr c \<and>
           new_calls w w' = [SelectCustomerId (get_prop tok ''sub'') r1,
                             SelectAccountOwner (get_prop b ''fromAccountId'') r2,
                             RpcPostLedgerTransaction (transfer_args uuid b c) None] \<and>
           r = posting_response uuid None"
proof (cases "\<exists>b. parsed_body req = Some b \<and> b \<noteq> JNull \<and> b \<noteq> JUndefined \<and> transfer_validation b = None")
  case False
  with assms show ?thesis
    by (auto simp: handleInternalTransfer_def transfer_validation_def message_response_def Let_def
        split: option.splits if_splits)
next
  case True
  then obtain b where b: "parsed_body req = Some b" "b \<noteq> JNull" "b \<noteq> JUndefined"
      "transfer_validation b = None" by blast
  obtain res0 where t: "transfer_try ds uuid b tok w = (res0, w')"
    and r: "Inr r = (case res0 of Inl err \<Rightarrow>
                Inr (message_response 500 (''Internal server error: '' @ error_message err))
              | Inr r \<Rightarrow> Inr r)"
    using assms(1) unfolding handleInternalTransfer_validated[OF b]
    by (auto split: prod.splits sum.splits)
  from transfer_try_outcome[OF t] r assms(2) b(1) show ?thesis
    by (auto simp: new_calls_def message_response_def posting_response_def split: option.splits)
qed

text \<open>
  C1. As the claim states it, a second transfer call with the same caller-supplied
  transaction id returns the outcome of the first and posts nothing more. The handler
  reads no transaction id from the request: each call posts under the identifier it
  generates. Two calls with the same body, which carries the caller's \<open>tx-1\<close>, are answered
  with two different outcomes and reach the ledger routine twice, under the generated
  identifiers.
\<close>

theorem transfer_retry_posts_again:
  "(case handleInternalTransfer demo_datastore ''11111111-1111-4111-8111-111111111111''
           (demo_transfer ''a11ce000-0000-4000-8000-000000000001'' ''b0b00000-0000-4000-8000-000000000002'' ''USD'') demo_token demo_world of
      (first_outcome, w1) \<Rightarrow>
        (case handleInternalTransfer demo_datastore ''22222222-2222-4222-8222-222222222222''
                (demo_transfer ''a11ce000-0000-4000-8000-000000000001'' ''b0b00000-0000-4000-8000-000000000002'' ''USD'') demo_token w1 of
           (second_outcome, w2) \<Rightarrow> (first_outcome, second_outcome, map p_transaction_id (store w2))))
   = (Inr \<lparr>statusCode = 200,
           body = Json (JObj [(''transactionId'', JStr ''11111111-1111-4111-8111-111111111111''), (''status'', JStr ''COMPLETED'')])\<rparr>,
      Inr \<lparr>statusCode = 200,
           body = Json (JObj [(''transactionId'', JStr ''22222222-2222-4222-8222-222222222222''), (''status'', JStr ''COMPLETED'')])\<rparr>,
      [''11111111-1111-4111-8111-111111111111'', ''22222222-2222-4222-8222-222222222222''])"
  by (simp add: transfer_simps js_simps demo_simps)

text \<open>
  C1, amended. The transfer handler takes no transaction id from the caller: its outcome
  depends on the request body only through the fields \<open>fromAccountId\<close>, \<open>toAccountId\<close>,
  \<open>amount\<close>, \<open>currency\<close> and \<open>description\<close>. Each call that completes has made one posting
  call under the identifier generated in that call and returns that identifier; so two
  completed calls with identical parameters have made two posting calls, with the same
  arguments but for the two generated identifiers.
\<close>

theorem transfer_posts_under_generated_id:
  "(parsed_body req = Some b \<and> parsed_body req' = Some b' \<and>
      b \<noteq> JNull \<and> b \<noteq> JUndefined \<and> b' \<noteq> JNull \<and> b' \<noteq> JUndefined \<and>
      get_prop b ''fromAccountId'' = get_prop b' ''fromAccountId'' \<and>
      get_prop b ''toAccountId'' = get_prop b' ''toAccountId'' \<and>
      get_prop b ''amount'' = get_prop b' ''amount'' \<and>
      get_prop b ''currency'' = get_prop b' ''currency'' \<and>
      get_prop b ''description'' = get_prop b' ''description''
    \<longrightarrow> handleInternalTransfer ds uuid req tok w = handleInternalTransfer ds uuid req' tok w)
   \<and> (handleInternalTransfer ds u1 req tok w = (Inr r1, w1) \<and>
      handleInternalTransfer ds u2 req tok w1 = (Inr r2, w2) \<and>
      statusCode r1 = 200 \<and> statusCode r2 = 200
    \<longrightarrow> body r1 = Json (JObj [(''transactionId'', JStr u1), (''status'', JStr ''COMPLETED'')]) \<and>
        body r2 = Json (JObj [(''transactionId'', JStr u2), (''status'', JStr ''COMPLETED'')]) \<and>
        (\<exists>b c x1 y1 x2 y2. parsed_body req = Some b \<and> get_prop b ''currency'' = JStr c \<and>
           new_calls w w2 = [x1, y1, RpcPostLedgerTransaction (transfer_args u1 b c) None,
                             x2, y2, RpcPostLedgerTransaction (transfer_args u2 b c) None]))"
proof (rule conjI[OF impI impI])
  assume "parsed_body req = Some b \<and> parsed_body req' = Some b' \<and>
      b \<noteq> JNull \<and> b \<noteq> JUndefined \<and> b' \<noteq> JNull \<and> b' \<noteq> JUndefined \<and>
      get_prop b ''fromAccountId'' = get_prop b' ''fromAccountId'' \<and>
      get_prop b ''toAccountId'' = get_prop b' ''toAccountId'' \<and>
      get_prop b ''amount'' = get_prop b' ''amount'' \<and>
      get_prop b ''currency'' = get_prop b' ''currency'' \<and>
      get_prop b ''description'' = get_prop b' ''description''"
  then have f: "parsed_body req = Some b" "parsed_body req' = Some b'"
      "b \<noteq> JNull" "b \<noteq> JUndefined" "b' \<noteq> JNull" "b' \<noteq> JUndefined"
      "get_prop b ''fromAccountId'' = get_prop b' ''fromAccountId''"
      "get_prop b ''toAccountId'' = get_prop b' ''toAccountId''"
      "get_prop b ''amount'' = get_prop b' ''amount''"
      "get_prop b ''currency'' = get_prop b' ''currency''"
      "get_prop b ''description'' = get_prop b' ''description''"
    by simp_all
  have v: "transfer_validation b = transfer_validation b'"
    by (simp add: transfer_validation_def f(7-11))
  have a: "transfer_args uuid b = transfer_args uuid b'"
    by (simp add: transfer_args_def fun_eq_iff f(7-11))
  have t: "transfer_try ds uuid b tok w = transfer_try ds uuid b' tok w"
    unfolding transfer_try_def a f(7) f(10) by (rule refl)
  show "handleInternalTransfer ds uuid req tok w = handleInternalTransfer ds uuid req' tok w"
  proof (cases "transfer_validation b'")
    case None
    with v have "transfer_validation b = None" by simp
    from handleInternalTransfer_validated[OF f(1,3,4) this, of ds uuid tok w]
      handleInternalTransfer_validated[OF f(2,5,6) None, of ds uuid tok w] t
    show ?thesis by simp
  next
    case (Some r)
    with v have "transfer_validation b = Some r" by simp
    with Some f(1-6) show ?thesis by (simp add: handleInternalTransfer_def)
  qed
next
  assume a: "handleInternalTransfer ds u1 req tok w = (Inr r1, w1) \<and>
      handleInternalTransfer ds u2 req tok w1 = (Inr r2, w2) \<and>
      statusCode r1 = 200 \<and> statusCode r2 = 200"
  then have h1: "handleInternalTransfer ds u1 req tok w = (Inr r1, w1)" "statusCode r1 = 200"
    and h2: "handleInternalTransfer ds u2 req tok w1 = (Inr r2, w2)" "statusCode r2 = 200"
    by simp_all
  from handleInternalTransfer_completed[OF h1] obtain b c x1 y1 where
    p1: "parsed_body req = Some b" "get_prop b ''currency'' = JStr c"
        "new_calls w w1 = [x1, y1, RpcPostLedgerTransaction (transfer_args u1 b c) None]"
        "r1 = posting_response u1 None"
    by blast
  from handleInternalTransfer_completed[OF h2] p1(1,2) obtain x2 y2 where
    p2: "new_calls w1 w2 = [x2, y2, RpcPostLedgerTransaction (transfer_args u2 b c) None]"
        "r2 = posting_response u2 None"
    by auto
  have "calls w2 = calls w @ new_calls w w1 @ new_calls w1 w2"
    using handleInternalTransfer_calls_extend[OF h1(1)] handleInternalTransfer_calls_extend[OF h2(1)]
    by simp
  then have "drop (length (calls w)) (calls w2) = new_calls w w1 @ new_calls w1 w2"
    by (metis append_eq_conv_conj)
  then have "new_calls w w2 = new_calls w w1 @ new_calls w1 w2"
    by (simp add: new_calls_def)
  with p1 p2 show "body r1 = Json (JObj [(''transactionId'', JStr u1), (''status'', JStr ''COMPLETED'')]) \<and>
        body r2 = Json (JObj [(''transactionId'', JStr u2), (''status'', JStr ''COMPLETED'')]) \<and>
        (\<exists>b c x1 y1 x2 y2. parsed_body req = Some b \<and> get_prop b ''currency'' = JStr c \<and>
           new_calls w w2 = [x1, y1, RpcPostLedgerTransaction (transfer_args u1 b c) None,
                             x2, y2, RpcPostLedgerTransaction (transfer_args u2 b c) None])"
    by (simp add: posting_response_def)
qed

theorem transfer_posts_under_generated_id_witness:
  "handleInternalTransfer demo_datastore ''11111111-1111-4111-8111-111111111111''
      (demo_transfer ''a11ce000-0000-4000-8000-000000000001'' ''b0b00000-0000-4000-8000-000000000002'' ''USD'') demo_token demo_world
    = handleInternalTransfer demo_datastore ''11111111-1111-4111-8111-111111111111''
        \<lparr>parsed_body = Some (JObj [(''fromAccountId'', JStr ''a11ce000-0000-4000-8000-000000000001''),
                                   (''toAccountId'', JStr ''b0b00000-0000-4000-8000-000000000002''),
                                   (''amount'', JNum 10), (''currency'', JStr ''USD'')]),
         path = [], query_customerId = JUndefined\<rparr> demo_token demo_world
   \<and> (\<exists>r1 w1 r2 w2.
        handleInternalTransfer demo_datastore ''11111111-1111-4111-8111-111111111111''
          (demo_transfer ''a11ce000-0000-4000-8000-000000000001'' ''b0b00000-0000-4000-8000-000000000002'' ''USD'') demo_token demo_world = (Inr r1, w1) \<and>
        handleInternalTransfer demo_datastore ''22222222-2222-4222-8222-222222222222''
          (demo_transfer ''a11ce000-0000-4000-8000-000000000001'' ''b0b00000-0000-4000-8000-000000000002'' ''USD'') demo_token w1 = (Inr r2, w2) \<and>
        statusCode r1 = 200 \<and> statusCode r2 = 200 \<and>
        body r1 = Json (JObj [(''transactionId'', JStr ''11111111-1111-4111-8111-111111111111''), (''status'', JStr ''COMPLETED'')]) \<and>
        body r2 = Json (JObj [(''transactionId'', JStr ''22222222-2222-4222-8222-222222222222''), (''status'', JStr ''COMPLETED'')]) \<and>
        length (new_calls demo_world w2) = 6)"
proof -
  let ?req = "demo_transfer ''a11ce000-0000-4000-8000-000000000001'' ''b0b00000-0000-4000-8000-000000000002'' ''USD''"
  let ?req' = "\<lparr>parsed_body = Some (JObj [(''fromAccountId'', JStr ''a11ce000-0000-4000-8000-000000000001''),
                                   (''toAccountId'', JStr ''b0b00000-0000-4000-8000-000000000002''),
                                   (''amount'', JNum 10), (''currency'', JStr ''USD'')]),
         path = [], query_customerId = JUndefined\<rparr>"
  obtain r1 w1 where h1: "handleInternalTransfer demo_datastore ''11111111-1111-4111-8111-111111111111'' ?req demo_token demo_world = (Inr r1, w1)"
    and s1: "statusCode r1 = 200"
    by (simp add: transfer_simps js_simps demo_simps)
  obtain r2 w2 where h2: "handleInternalTransfer demo_datastore ''22222222-2222-4222-8222-222222222222'' ?req demo_token w1 = (Inr r2, w2)"
    and s2: "statusCode r2 = 200"
    using h1 by (auto simp: transfer_simps js_simps demo_simps)
  note inst = transfer_posts_under_generated_id
    [of ?req "demo_transfer_body ''a11ce000-0000-4000-8000-000000000001'' ''b0b00000-0000-4000-8000-000000000002'' ''USD''" ?req'
        "JObj [(''fromAccountId'', JStr ''a11ce000-0000-4000-8000-000000000001''),
               (''toAccountId'', JStr ''b0b00000-0000-4000-8000-000000000002''),
               (''amount'', JNum 10), (''currency'', JStr ''USD'')]"
        demo_datastore "''11111111-1111-4111-8111-111111111111''" demo_token demo_world "''11111111-1111-4111-8111-111111111111''" r1 w1 "''22222222-2222-4222-8222-222222222222''" r2 w2]
  have eq: "handleInternalTransfer demo_datastore ''11111111-1111-4111-8111-111111111111'' ?req demo_token demo_world
          = handleInternalTransfer demo_datastore ''11111111-1111-4111-8111-111111111111'' ?req' demo_token demo_world"
    using inst by (simp add: demo_transfer_def demo_transfer_body_def get_prop_def)
  have "body r1 = Json (JObj [(''transactionId'', JStr ''11111111-1111-4111-8111-111111111111''), (''status'', JStr ''COMPLETED'')]) \<and>
        body r2 = Json (JObj [(''transactionId'', JStr ''22222222-2222-4222-8222-222222222222''), (''status'', JStr ''COMPLETED'')]) \<and>
        length (new_calls demo_world w2) = 6"
    using inst h1 h2 s1 s2 by auto
  with eq h1 h2 s1 s2 show ?thesis by blast
qed

section \<open>Properties of the account-number allocator\<close>





lemma new_calls_append: "calls w' = calls w @ evs \<Longrightarrow> new_calls w w' = evs"
  by (simp add: new_calls_def)



section \<open>Currency codes\<close>









section \<open>Balances in account responses\<close>

lemma account_with_balance_outcome:
  assumes "account_with_balance ds acc w = (res, w')"
  shows "(acc = JNull \<or> acc = JUndefined) \<and> w' = w \<and> (\<exists>e. res = Inl e) \<or>
         (\<exists>reply. calls w' = calls w @ [RpcCalculateBalance (get_prop acc ''id'') reply] \<and>
            res = Inr (spread_with acc ''balance'' (shown_balance reply)))"
proof (cases "acc = JNull \<or> acc = JUndefined")
  case True
  with assms show ?thesis by (auto simp: account_with_balance_def)
next
  case False
  obtain reply s1 where "rpc_calculate_balance ds (get_prop acc ''id'') (store w) = (reply, s1)"
    by fastforce
  with assms False show ?thesis
    by (auto simp: account_with_balance_def db_query_def)
qed

text \<open>The accounts of a list that was answered completely, each paired with the reply
  to its balance call.\<close>

lemma accounts_with_balance_outcome:
  assumes "accounts_with_balance ds accs w = (Inr items, w')"
  shows "\<exists>replies. length replies = length accs \<and>
           calls w' = calls w @ map (\<lambda>(acc, reply). RpcCalculateBalance (get_prop acc ''id'') reply)
                                  (zip accs replies) \<and>
           items = map (\<lambda>(acc, reply). spread_with acc ''balance'' (shown_balance reply))
                       (zip accs replies)"
  using assms
proof (induction accs arbitrary: w items w')
  case Nil
  then show ?case by simp
next
  case (Cons acc accs)
  obtain r w1 where a: "account_with_balance ds acc w = (r, w1)" by fastforce
  obtain rs w2 where b: "accounts_with_balance ds accs w1 = (rs, w2)" by fastforce
  from Cons.prems a b obtain item rest where
    i: "r = Inr item" "rs = Inr rest" "items = item # rest" "w' = w2"
    by (auto split: sum.splits)
  note b' = b[unfolded i(2)]
  from account_with_balance_outcome[OF a] i(1) obtain reply where
    r: "calls w1 = calls w @ [RpcCalculateBalance (get_prop acc ''id'') reply]"
       "item = spread_with acc ''balance'' (shown_balance reply)"
    by auto
  from Cons.IH[OF b'] obtain replies where
    t: "length replies = length accs"
       "calls w2 = calls w1 @ map (\<lambda>(acc, reply). RpcCalculateBalance (get_prop acc ''id'') reply)
                                  (zip accs replies)"
       "rest = map (\<lambda>(acc, reply). spread_with acc ''balance'' (shown_balance reply))
                       (zip accs replies)"
    by blast
  show ?case
    by (rule exI[of _ "reply # replies"]) (simp add: i r t)
qed

lemma handleListAccounts_balances:
  assumes "handleListAccounts ds other req tok w = (Inr r, w')" "statusCode r = 200"
    and "new_calls w w' \<noteq> [] \<and> (\<exists>k reply. RpcCalculateBalance k reply \<in> set (new_calls w w'))"
  shows "\<exists>r1 q accs replies. length replies = length accs \<and>
           new_calls w w' = SelectCustomerId (get_prop tok ''sub'') r1 #
             SelectAccountsOfCustomer (customer_of r1) q #
             map (\<lambda>(acc, reply). RpcCalculateBalance (get_prop acc ''id'') reply) (zip accs replies) \<and>
           q_data q = JArr accs \<and>
           body r = Json (JArr (map (\<lambda>(acc, reply). spread_with acc ''balance'' (shown_balance reply))
                                    (zip accs replies)))"
proof -
  let ?sub = "get_prop tok ''sub''"
  obtain r1 s1 where q1: "select_customer_id ds ?sub (store w) = (r1, s1)" by fastforce
  let ?w1 = "\<lparr>store = s1, calls = calls w @ [SelectCustomerId ?sub r1]\<rparr>"
  have c1: "getCustomerIdFromAuth0Sub ds ?sub w = (customer_of r1, ?w1)"
    by (simp add: getCustomerIdFromAuth0Sub_def db_query_def q1)
  obtain q s2 where q2: "select_accounts_of_customer ds (customer_of r1) s1 = (q, s2)" by fastforce
  let ?w2 = "\<lparr>store = s2, calls = calls w @ [SelectCustomerId ?sub r1,
                 SelectAccountsOfCustomer (customer_of r1) q]\<rparr>"
  have c2: "db_query (select_accounts_of_customer ds) SelectAccountsOfCustomer (customer_of r1) ?w1
              = (q, ?w2)"
    by (simp add: db_query_def q2)
  have truthy_query: "truthy (query_customerId req)"
    using assms(1,2) by (auto simp: handleListAccounts_def message_response_def split: if_splits)
  have authorized: "truthy (customer_of r1)" "is_customer other (customer_of r1) (query_customerId req)"
    using assms truthy_query c1
    by (auto simp: handleListAccounts_def new_calls_def message_response_def split: if_splits)
  then obtain res0 where t: "list_try ds (customer_of r1) ?w1 = (res0, w')"
    and r0: "Inr r = (case res0 of Inl err \<Rightarrow>
                Inr (message_response 500 (''Internal server error: '' @ error_message err))
              | Inr x \<Rightarrow> Inr x)"
    using assms(1) truthy_query c1
    by (auto simp: handleListAccounts_def split: prod.splits sum.splits)
  from r0 assms(2) have res0: "res0 = Inr r"
    by (auto simp: message_response_def split: sum.splits)
  have noerr: "q_error q = None"
    using t res0 assms(2) c2 by (auto simp: list_try_def split: option.splits)
  show ?thesis
  proof (cases "\<not> truthy (q_data q) \<or> strict_eq (js_length (q_data q)) (JNum 0)")
    case True
    with t c2 noerr have "w' = ?w2" by (auto simp: list_try_def)
    with assms(3) show ?thesis by (auto simp: new_calls_def)
  next
    case False
    with t c2 noerr res0 obtain accs where accs: "q_data q = JArr accs"
      by (cases "q_data q") (auto simp: list_try_def)
    with t c2 noerr res0 False obtain items where
      l: "accounts_with_balance ds accs ?w2 = (Inr items, w')" "body r = Json (JArr items)"
      by (auto simp: list_try_def split: prod.splits sum.splits)
    from accounts_with_balance_outcome[OF l(1)] obtain replies where
      p: "length replies = length accs"
         "calls w' = calls ?w2 @ map (\<lambda>(acc, reply). RpcCalculateBalance (get_prop acc ''id'') reply)
                                  (zip accs replies)"
         "items = map (\<lambda>(acc, reply). spread_with acc ''balance'' (shown_balance reply))
                       (zip accs replies)"
      by blast
    from p(2) have "calls w' = calls w @ SelectCustomerId ?sub r1 #
             SelectAccountsOfCustomer (customer_of r1) q #
             map (\<lambda>(acc, reply). RpcCalculateBalance (get_prop acc ''id'') reply) (zip accs replies)"
      by simp
    from new_calls_append[OF this] p(1,3) l(2) accs show ?thesis by blast
  qed
qed

lemma handleGetAccount_balance:
  assumes "handleGetAccount ds req tok w = (res, w')"
    and "RpcCalculateBalance k reply \<in> set (new_calls w w')"
  shows "\<exists>q r1. new_calls w w' = [SelectAccount (last_path_part (path req)) q,
                                   SelectCustomerId (get_prop tok ''sub'') r1,
                                   RpcCalculateBalance k reply] \<and>
           k = get_prop (q_data q) ''id'' \<and>
           res = Inr \<lparr>statusCode = 200,
                      body = Json (spread_with (q_data q) ''balance'' (shown_balance reply))\<rparr>"
proof -
  let ?id = "last_path_part (path req)" and ?sub = "get_prop tok ''sub''"
  obtain q s1 where q1: "select_account ds ?id (store w) = (q, s1)" by fastforce
  let ?w1 = "\<lparr>store = s1, calls = calls w @ [SelectAccount ?id q]\<rparr>"
  obtain r1 s2 where q2: "select_customer_id ds ?sub s1 = (r1, s2)" by fastforce
  let ?w2 = "\<lparr>store = s2, calls = calls w @ [SelectAccount ?id q, SelectCustomerId ?sub r1]\<rparr>"
  have c2: "getCustomerIdFromAuth0Sub ds ?sub ?w1 = (customer_of r1, ?w2)"
    by (simp add: getCustomerIdFromAuth0Sub_def db_query_def q2)
  obtain rep s3 where q3: "rpc_calculate_balance ds (get_prop (q_data q) ''id'') s2 = (rep, s3)"
    by fastforce
  from assms show ?thesis
    by (auto simp: handleGetAccount_def Let_def db_query_def q1 c2 q3 new_calls_def
        split: if_splits option.splits)
qed

text \<open>
  C4. As the claim states it, a failure to compute a balance is never swallowed as a
  displayable string in an account response. When the balance routine reports an error,
  \<^verbatim>\<open>handleGetAccount\<close> answers 200 with the account and the string \<open>Error\<close> as its
  balance.
\<close>

theorem get_account_shows_balance_failure_as_string:
  "fst (handleGetAccount failing_balance_datastore demo_get demo_token demo_world)
     = Inr \<lparr>statusCode = 200,
            body = Json (JObj [(''id'', JStr ''a11ce000-0000-4000-8000-000000000001''), (''customer_id'', JNum 7),
                               (''account_number'', JStr ''4000000001''),
                               (''account_type'', JStr ''CHECKING''),
                               (''status'', JStr ''ACTIVE''), (''currency'', JStr ''USD''),
                               (''nickname'', JNull), (''balance'', JStr ''Error'')])\<rparr>"
  by (simp add: failing_balance_datastore_def demo_get_def account_simps js_simps demo_simps)

text \<open>
  C4, amended. When the call of the balance routine fails for an account (it reports an
  error, or the call throws), \<^verbatim>\<open>handleGetAccount\<close> answers 200 with the account row and
  the string \<open>Error\<close> as its balance, and a 200 answer of \<^verbatim>\<open>handleListAccounts\<close> lists
  that account with the string \<open>Error\<close> as its balance. The failure is not reported as
  an error response.
\<close>

theorem balance_failure_shown_as_error_string:
  "(handleGetAccount ds req tok w = (res, w') \<and>
      RpcCalculateBalance k reply \<in> set (new_calls w w') \<and> balance_failed reply
    \<longrightarrow> (\<exists>q. SelectAccount (last_path_part (path req)) q \<in> set (new_calls w w') \<and>
             k = get_prop (q_data q) ''id'' \<and>
             res = Inr \<lparr>statusCode = 200,
                        body = Json (spread_with (q_data q) ''balance'' (JStr ''Error''))\<rparr>))
   \<and> (handleListAccounts ds other req' tok w = (Inr r, w'') \<and> statusCode r = 200 \<and>
      RpcCalculateBalance k' reply' \<in> set (new_calls w w'') \<and> balance_failed reply'
    \<longrightarrow> (\<exists>items acc. body r = Json (JArr items) \<and> get_prop acc ''id'' = k' \<and>
             spread_with acc ''balance'' (JStr ''Error'') \<in> set items))"
proof (rule conjI[OF impI impI])
  assume a: "handleGetAccount ds req tok w = (res, w') \<and>
      RpcCalculateBalance k reply \<in> set (new_calls w w') \<and> balance_failed reply"
  then have "shown_balance reply = JStr ''Error''" by (simp add: shown_balance_def)
  with handleGetAccount_balance[of ds req tok w res w' k reply] a
  show "\<exists>q. SelectAccount (last_path_part (path req)) q \<in> set (new_calls w w') \<and>
             k = get_prop (q_data q) ''id'' \<and>
             res = Inr \<lparr>statusCode = 200,
                        body = Json (spread_with (q_data q) ''balance'' (JStr ''Error''))\<rparr>"
    by auto
next
  assume a: "handleListAccounts ds other req' tok w = (Inr r, w'') \<and> statusCode r = 200 \<and>
      RpcCalculateBalance k' reply' \<in> set (new_calls w w'') \<and> balance_failed reply'"
  then have s: "shown_balance reply' = JStr ''Error''" by (simp add: shown_balance_def)
  from a have "new_calls w w'' \<noteq> [] \<and> (\<exists>k reply. RpcCalculateBalance k reply \<in> set (new_calls w w''))"
    by auto
  from handleListAccounts_balances[OF _ _ this, of ds other req' tok r] a
  obtain r1 q accs replies where
    p: "length replies = length accs"
       "new_calls w w'' = SelectCustomerId (get_prop tok ''sub'') r1 #
             SelectAccountsOfCustomer (customer_of r1) q #
             map (\<lambda>(acc, reply). RpcCalculateBalance (get_prop acc ''id'') reply) (zip accs replies)"
       "body r = Json (JArr (map (\<lambda>(acc, reply). spread_with acc ''balance'' (shown_balance reply))
                                    (zip accs replies)))"
    by blast
  from a p(2) obtain acc where m: "(acc, reply') \<in> set (zip accs replies)" "get_prop acc ''id'' = k'"
    by auto
  then have "spread_with acc ''balance'' (shown_balance reply')
      \<in> set (map (\<lambda>(acc, reply). spread_with acc ''balance'' (shown_balance reply)) (zip accs replies))"
    by force
  then have "spread_with acc ''balance'' (JStr ''Error'')
      \<in> set (map (\<lambda>(acc, reply). spread_with acc ''balance'' (shown_balance reply)) (zip accs replies))"
    by (simp only: s)
  with p(3) m(2)
  show "\<exists>items acc. body r = Json (JArr items) \<and> get_prop acc ''id'' = k' \<and>
             spread_with acc ''balance'' (JStr ''Error'') \<in> set items"
    by blast
qed

theorem balance_failure_shown_as_error_string_witness:
  "handleListAccounts failing_balance_datastore (\<lambda>v. []) demo_list demo_token demo_world
     = (Inr \<lparr>statusCode = 200,
             body = Json (JArr [JObj [(''id'', JStr ''a11ce000-0000-4000-8000-000000000001''), (''customer_id'', JNum 7),
                               (''account_number'', JStr ''4000000001''),
                               (''account_type'', JStr ''CHECKING''),
                               (''status'', JStr ''ACTIVE''), (''currency'', JStr ''USD''),
                               (''nickname'', JNull), (''balance'', JStr ''Error'')]])\<rparr>,
        \<lparr>store = [],
         calls = [SelectCustomerId (JStr ''auth0|alice'') (found (JObj [(''id'', JNum 7)])),
                  SelectAccountsOfCustomer (JNum 7) (found (JArr [alice_account])),
                  RpcCalculateBalance (JStr ''a11ce000-0000-4000-8000-000000000001'')
                    (RpcReplied \<lparr>q_data = JNull,
                                 q_error = Some \<lparr>err_code = Some ''P0001'',
                                                 err_message = Some ''currency mismatch in ledger''\<rparr>\<rparr>)]\<rparr>)
   \<and> (\<exists>items acc. body (projr (fst (handleListAccounts failing_balance_datastore (\<lambda>v. [])
                                        demo_list demo_token demo_world))) = Json (JArr items) \<and>
         get_prop acc ''id'' = JStr ''a11ce000-0000-4000-8000-000000000001'' \<and>
         spread_with acc ''balance'' (JStr ''Error'') \<in> set items)"
proof -
  let ?reply = "RpcReplied \<lparr>q_data = JNull,
                                 q_error = Some \<lparr>err_code = Some ''P0001'',
                                                 err_message = Some ''currency mismatch in ledger''\<rparr>\<rparr>"
  let ?r = "\<lparr>statusCode = 200,
             body = Json (JArr [JObj [(''id'', JStr ''a11ce000-0000-4000-8000-000000000001''), (''customer_id'', JNum 7),
                               (''account_number'', JStr ''4000000001''),
                               (''account_type'', JStr ''CHECKING''),
                               (''status'', JStr ''ACTIVE''), (''currency'', JStr ''USD''),
                               (''nickname'', JNull), (''balance'', JStr ''Error'')]])\<rparr>"
  let ?w = "\<lparr>store = [],
         calls = [SelectCustomerId (JStr ''auth0|alice'') (found (JObj [(''id'', JNum 7)])),
                  SelectAccountsOfCustomer (JNum 7) (found (JArr [alice_account])),
                  RpcCalculateBalance (JStr ''a11ce000-0000-4000-8000-000000000001'') ?reply]\<rparr>"
  have h: "handleListAccounts failing_balance_datastore (\<lambda>v. []) demo_list demo_token demo_world
     = (Inr ?r, ?w)"
    by (simp add: failing_balance_datastore_def demo_list_def account_simps js_simps demo_simps)
  have m: "RpcCalculateBalance (JStr ''a11ce000-0000-4000-8000-000000000001'') ?reply \<in> set (new_calls demo_world ?w)"
    by (simp add: new_calls_def demo_world_def)
  have f: "balance_failed ?reply" by (simp add: balance_failed_def)
  from balance_failure_shown_as_error_string
         [THEN conjunct2, THEN mp, of failing_balance_datastore "\<lambda>v. []" demo_list demo_token
            demo_world ?r ?w "JStr ''a11ce000-0000-4000-8000-000000000001''" ?reply] h m f
  have "\<exists>items acc. body ?r = Json (JArr items) \<and>
         get_prop acc ''id'' = JStr ''a11ce000-0000-4000-8000-000000000001'' \<and>
         spread_with acc ''balance'' (JStr ''Error'') \<in> set items"
    by simp
  with h show ?thesis by simp
qed

section \<open>The double-entry invariant\<close>

lemma ledger_post_double_entry:
  assumes "double_entry l" "ledger_post txn d c l = (r, l')"
    and "e_transaction_id d = t_id txn" "e_transaction_id c = t_id txn" "balanced_pair [d, c]"
  shows "double_entry l'"
proof (cases "t_id txn \<in> set (map t_id (transactions l))")
  case True
  with assms(1,2) show ?thesis by (simp add: ledger_post_def)
next
  case False
  show ?thesis
  proof (cases "case io_failures l of [] \<Rightarrow> False | f # fs \<Rightarrow> f")
    case True
    with False assms(2) have "l' = l\<lparr>io_failures := tl (io_failures l)\<rparr>"
      by (simp add: ledger_post_def)
    with assms(1) show ?thesis by (simp add: double_entry_def entries_of_def)
  next
    case io: False
    with False assms(2) have l': "transactions l' = transactions l @ [txn]"
        "entries l' = entries l @ [d, c]"
      by (auto simp: ledger_post_def)
    from assms(1) have old: "\<forall>t \<in> set (transactions l). balanced_pair (entries_of (t_id t) l)"
      and own: "\<forall>e \<in> set (entries l). e_transaction_id e \<in> set (map t_id (transactions l))"
      by (simp_all add: double_entry_def list_all_iff)
    from own False have fresh: "entries_of (t_id txn) l = []"
      unfolding entries_of_def filter_empty_conv by metis
    have new: "balanced_pair (entries_of (t_id txn) l')"
      using fresh assms(3-5) by (simp add: entries_of_def l')
    have kept: "balanced_pair (entries_of (t_id t) l')" if "t \<in> set (transactions l)" for t
    proof -
      from that False have "t_id t \<noteq> t_id txn" by (metis image_eqI set_map)
      then have "entries_of (t_id t) l' = entries_of (t_id t) l"
        using assms(3,4) by (simp add: entries_of_def l')
      with old that show ?thesis by simp
    qed
    from new kept own assms(3,4) show ?thesis
      by (auto simp: double_entry_def list_all_iff l')
  qed
qed

lemma transfer_double_entry:
  assumes "double_entry l" "transfer da ca amount cur descr tid l = (r, l')"
  shows "double_entry l' \<and> (\<forall>txn. r = Inr txn \<longrightarrow> balanced_pair (entries_of tid l'))"
proof -
  let ?txn = "\<lparr>t_id = tid, t_amount = amount, t_currency = cur, t_debit_account_id = da,
               t_credit_account_id = ca, t_description = descr, t_created_at = clock l,
               t_status = COMPLETED\<rparr>"
  let ?d = "\<lparr>e_id = tid @ ''/debit'', e_transaction_id = tid, e_account_id = da,
             e_direction = DEBIT, e_amount = amount, e_currency = cur, e_created_at = clock l\<rparr>"
  let ?c = "\<lparr>e_id = tid @ ''/credit'', e_transaction_id = tid, e_account_id = ca,
             e_direction = CREDIT, e_amount = amount, e_currency = cur, e_created_at = clock l\<rparr>"
  obtain pr pl where p: "ledger_post ?txn ?d ?c l = (pr, pl)" by fastforce
  have bp: "balanced_pair [?d, ?c]" by (simp add: balanced_pair_def)
  from ledger_post_double_entry[OF assms(1) p _ _ bp] have pl: "double_entry pl" by simp
  have posted: "balanced_pair (entries_of tid pl)" if "\<exists>t. pr = Inr t \<or> (pr = Inl Conflict \<and>
      find (\<lambda>t. t_id t = tid) (transactions pl) \<noteq> None)"
  proof -
    from that p have "tid \<in> set (map t_id (transactions pl))"
      by (auto simp: ledger_post_def find_None_iff split: if_splits)
    with pl show ?thesis by (auto simp: double_entry_def list_all_iff)
  qed
  from assms(2) consider "l' = l" "\<exists>e. r = Inl e"
    | "l' = pl" "r = pr" "pr \<noteq> Inl Conflict"
    | existing where "l' = pl" "pr = Inl Conflict" "r = Inr existing"
        "find (\<lambda>t. t_id t = tid) (transactions pl) = Some existing"
    | "l' = pl" "pr = Inl Conflict" "r = Inl Conflict"
    unfolding transfer_def p
    by (auto split: if_splits option.splits sum.splits prod.splits ledger_error.splits)
  then show ?thesis
  proof cases
    case 1
    with assms(1) show ?thesis by auto
  next
    case 2
    with pl posted show ?thesis by auto
  next
    case 3
    with pl posted show ?thesis by auto
  next
    case 4
    with pl show ?thesis by auto
  qed
qed

lemma post_ledger_transaction_double_entry:
  assumes "double_entry l" "post_ledger_transaction a l = (e, l')"
  shows "double_entry l' \<and> (e = None \<longrightarrow> balanced_pair (entries_of (p_transaction_id a) l'))"
proof (cases "\<exists>da ca. p_debit_account_id a = JStr da \<and> p_credit_account_id a = JStr ca")
  case True
  then obtain da ca where i: "p_debit_account_id a = JStr da" "p_credit_account_id a = JStr ca"
    by blast
  obtain r tl where t: "transfer da ca (p_amount a) (p_currency a) (p_description a)
                          (p_transaction_id a) l = (r, tl)" by fastforce
  from transfer_double_entry[OF assms(1) t] assms(2) i t show ?thesis
    by (auto simp: post_ledger_transaction_def split: sum.splits)
next
  case False
  with assms have "l' = l" "e \<noteq> None"
    by (auto simp: post_ledger_transaction_def split: jsval.splits)
  with assms(1) show ?thesis by blast
qed

text \<open>The store after a transfer, over a datastore whose two lookups leave the store as
  it is: unchanged, or the store after the one posting call.\<close>

lemma transfer_try_store:
  assumes "transfer_try ds uuid b tok w = (res, w')"
    and "\<And>k s. snd (select_customer_id ds k s) = s"
    and "\<And>k s. snd (select_account_owner ds k s) = s"
  shows "store w' = store w \<and> (\<forall>r. res = Inr r \<longrightarrow> statusCode r \<noteq> 200) \<or>
         (\<exists>c e. rpc_post_ledger_transaction ds (transfer_args uuid b c) (store w) = (e, store w') \<and>
                 res = Inr (posting_response uuid e))"
proof -
  let ?sub = "get_prop tok ''sub''" and ?from = "get_prop b ''fromAccountId''"
  obtain r1 s1 where q1: "select_customer_id ds ?sub (store w) = (r1, s1)"
    by fastforce
  with assms(2)[of ?sub "store w"] have s1: "s1 = store w" by simp
  obtain r2 s2 where q2: "select_account_owner ds ?from s1 = (r2, s2)"
    by fastforce
  with assms(3)[of ?from s1] s1 have s2: "s2 = store w" by simp
  let ?w1 = "\<lparr>store = s1, calls = calls w @ [SelectCustomerId ?sub r1]\<rparr>"
  let ?w2 = "\<lparr>store = s2, calls = calls w @ [SelectCustomerId ?sub r1, SelectAccountOwner ?from r2]\<rparr>"
  have c1: "getCustomerIdFromAuth0Sub ds ?sub w = (customer_of r1, ?w1)"
    by (simp add: getCustomerIdFromAuth0Sub_def db_query_def q1)
  have c2: "db_query (select_account_owner ds) SelectAccountOwner ?from ?w1 = (r2, ?w2)"
    by (simp add: db_query_def q2)
  show ?thesis
  proof (cases "truthy (customer_of r1) \<and> row_found r2 \<and>
      strict_eq (get_prop (q_data r2) ''customer_id'') (customer_of r1) \<and>
      (\<exists>c. get_prop b ''currency'' = JStr c)")
    case False
    with assms(1) have "(w' = ?w1 \<or> w' = ?w2) \<and> (\<forall>r. res = Inr r \<longrightarrow> statusCode r \<noteq> 200)"
      by (cases "get_prop b ''currency''")
         (auto simp: transfer_try_def Let_def c1 c2 message_response_def split: if_splits)
    with s1 s2 show ?thesis by auto
  next
    case True
    then obtain c where c: "get_prop b ''currency'' = JStr c" by blast
    obtain e s3 where q3: "rpc_post_ledger_transaction ds (transfer_args uuid b c) s2 = (e, s3)"
      by fastforce
    with assms(1) True c have "res = Inr (posting_response uuid e) \<and> store w' = s3"
      by (auto simp: transfer_try_def Let_def c1 db_query_def q2)
    with q3 s2 show ?thesis by auto
  qed
qed

text \<open>
  C2. With the ledger routine as the spec describes it, the double-entry invariant holds
  after every call of the transfer handler if it held before, and a transfer that was
  answered with 200 has exactly two entries under its transaction id, one \<open>DEBIT\<close> and
  one \<open>CREDIT\<close>, of equal amount and currency.
\<close>

theorem transfer_keeps_double_entry:
  assumes "rpc_post_ledger_transaction ds = post_ledger_transaction"
    and "\<And>k s. snd (select_customer_id ds k s) = s"
    and "\<And>k s. snd (select_account_owner ds k s) = s"
    and "double_entry (store w)"
    and "handleInternalTransfer ds uuid req tok w = (res, w')"
  shows "double_entry (store w') \<and>
         (\<forall>r. res = Inr r \<and> statusCode r = 200 \<longrightarrow> balanced_pair (entries_of uuid (store w')))"
proof (cases "\<exists>b. parsed_body req = Some b \<and> b \<noteq> JNull \<and> b \<noteq> JUndefined \<and> transfer_validation b = None")
  case False
  from handleInternalTransfer_not_validated[OF assms(5) False] have w': "w' = w" .
  from assms(5) False have "\<forall>r. res = Inr r \<longrightarrow> statusCode r \<noteq> 200"
    by (auto simp: handleInternalTransfer_def message_response_def transfer_validation_def Let_def
        split: option.splits if_splits)
  with w' assms(4) show ?thesis by blast
next
  case True
  then obtain b where b: "parsed_body req = Some b" "b \<noteq> JNull" "b \<noteq> JUndefined"
      "transfer_validation b = None" by blast
  obtain res0 where t: "transfer_try ds uuid b tok w = (res0, w')"
    and r: "res = (case res0 of Inl err \<Rightarrow>
                Inr (message_response 500 (''Internal server error: '' @ error_message err))
              | Inr r \<Rightarrow> Inr r)"
    using assms(5) unfolding handleInternalTransfer_validated[OF b]
    by (auto split: prod.splits sum.splits)
  from transfer_try_store[OF t assms(2,3)]
  consider "store w' = store w" "\<forall>r. res0 = Inr r \<longrightarrow> statusCode r \<noteq> 200"
    | c e where "post_ledger_transaction (transfer_args uuid b c) (store w) = (e, store w')"
        "res0 = Inr (posting_response uuid e)"
    unfolding assms(1) by blast
  then show ?thesis
  proof cases
    case 1
    with r assms(4) show ?thesis
      by (auto simp: message_response_def split: sum.splits)
  next
    case 2
    from post_ledger_transaction_double_entry[OF assms(4) 2(1)]
    have "double_entry (store w')"
      and "e = None \<longrightarrow> balanced_pair (entries_of uuid (store w'))"
      by (simp_all add: transfer_args_def)
    with r 2(2) show ?thesis
      by (auto simp: posting_response_def split: option.splits)
  qed
qed

theorem transfer_keeps_double_entry_witness:
  "double_entry demo_ledger \<and>
   fst (handleInternalTransfer (demo_datastore_with post_ledger_transaction) ''11111111-1111-4111-8111-111111111111''
          (demo_transfer ''a11ce000-0000-4000-8000-000000000001'' ''b0b00000-0000-4000-8000-000000000002'' ''usd'') demo_token
          \<lparr>store = demo_ledger, calls = []\<rparr>)
     = Inr \<lparr>statusCode = 200,
            body = Json (JObj [(''transactionId'', JStr ''11111111-1111-4111-8111-111111111111''), (''status'', JStr ''COMPLETED'')])\<rparr> \<and>
   entries_of ''11111111-1111-4111-8111-111111111111'' (store (snd (handleInternalTransfer (demo_datastore_with post_ledger_transaction)
          ''11111111-1111-4111-8111-111111111111'' (demo_transfer ''a11ce000-0000-4000-8000-000000000001'' ''b0b00000-0000-4000-8000-000000000002'' ''usd'') demo_token
          \<lparr>store = demo_ledger, calls = []\<rparr>)))
     = [\<lparr>e_id = ''11111111-1111-4111-8111-111111111111/debit'', e_transaction_id = ''11111111-1111-4111-8111-111111111111'', e_account_id = ''a11ce000-0000-4000-8000-000000000001'',
         e_direction = DEBIT, e_amount = 10, e_currency = ''USD'', e_created_at = 1\<rparr>,
        \<lparr>e_id = ''11111111-1111-4111-8111-111111111111/credit'', e_transaction_id = ''11111111-1111-4111-8111-111111111111'', e_account_id = ''b0b00000-0000-4000-8000-000000000002'',
         e_direction = CREDIT, e_amount = 10, e_currency = ''USD'', e_created_at = 1\<rparr>] \<and>
   double_entry (store (snd (handleInternalTransfer (demo_datastore_with post_ledger_transaction)
          ''11111111-1111-4111-8111-111111111111'' (demo_transfer ''a11ce000-0000-4000-8000-000000000001'' ''b0b00000-0000-4000-8000-000000000002'' ''usd'') demo_token
          \<lparr>store = demo_ledger, calls = []\<rparr>)))"
proof -
  let ?ds = "demo_datastore_with post_ledger_transaction :: ledger datastore"
  let ?w = "\<lparr>store = demo_ledger, calls = []\<rparr>"
  let ?H = "handleInternalTransfer ?ds ''11111111-1111-4111-8111-111111111111''
          (demo_transfer ''a11ce000-0000-4000-8000-000000000001'' ''b0b00000-0000-4000-8000-000000000002'' ''usd'') demo_token ?w"
  have d: "double_entry demo_ledger"
    by (simp add: ledger_simps)
  have f: "fst ?H = Inr \<lparr>statusCode = 200,
            body = Json (JObj [(''transactionId'', JStr ''11111111-1111-4111-8111-111111111111''), (''status'', JStr ''COMPLETED'')])\<rparr>"
    by (simp add: transfer_simps js_simps demo_simps ledger_simps)
  have e: "entries_of ''11111111-1111-4111-8111-111111111111'' (store (snd ?H))
     = [\<lparr>e_id = ''11111111-1111-4111-8111-111111111111/debit'', e_transaction_id = ''11111111-1111-4111-8111-111111111111'', e_account_id = ''a11ce000-0000-4000-8000-000000000001'',
         e_direction = DEBIT, e_amount = 10, e_currency = ''USD'', e_created_at = 1\<rparr>,
        \<lparr>e_id = ''11111111-1111-4111-8111-111111111111/credit'', e_transaction_id = ''11111111-1111-4111-8111-111111111111'', e_account_id = ''b0b00000-0000-4000-8000-000000000002'',
         e_direction = CREDIT, e_amount = 10, e_currency = ''USD'', e_created_at = 1\<rparr>]"
    by (simp add: transfer_simps js_simps demo_simps ledger_simps)
  have "double_entry (store (snd ?H))"
    using transfer_keeps_double_entry[of ?ds ?w "''11111111-1111-4111-8111-111111111111''"
        "demo_transfer ''a11ce000-0000-4000-8000-000000000001'' ''b0b00000-0000-4000-8000-000000000002'' ''usd''" demo_token "fst ?H" "snd ?H"] d
    by (simp add: demo_datastore_with_def)
  with d f e show ?thesis by simp
qed

end
